theory Spec2Isabelle
  imports Main "HOL-Library.Sublist"
begin

text \<open>
  A shallow embedding of the request orchestration of smart-fetch: the fingerprint and
  url helpers of \<open>src/utils\<close>, the error classes, the cache adapters and the
  \<open>CacheManager\<close>, the \<open>OfflineQueue\<close>, and of \<open>src/core/SmartFetch.ts\<close> the cache
  coordinator, the rate limiter, the retry engine, \<open>executeRequest\<close> and \<open>request\<close>.

  Conventions. Mutable fields of an object are a record that each operation takes and
  returns. A \<open>throw\<close> is the left summand of a sum. \<open>Date.now()\<close> reads a clock held in the
  state, and the transport (\<open>fetch\<close>) is a parameter that says how each exchange ends.
  Numbers are integers. \<open>executeRequest\<close> is given twice over the same building blocks:
  as a recursive function that runs its exchanges to the end one after the other, and,
  for \<open>request\<close>, as steps on an event loop with a microtask queue, where several calls
  are under way at once.
\<close>

section \<open>JavaScript values and strings\<close>

text \<open>
  Values that travel through a request (\<open>body\<close>, \<open>params\<close>, payloads) are modelled by
  \<open>jsval\<close>. Numbers are integers (times are integral milliseconds); an object is the list
  of its own enumerable properties in enumeration order.
\<close>

datatype jsval =
    JUndefined
  | JNull
  | JBool bool
  | JNum int
  | JStr string
  | JArr "jsval list"
  | JObj "(string \<times> jsval) list"

text \<open>JavaScript truthiness, as used by \<open>if (x)\<close>, \<open>x && y\<close> and \<open>x || y\<close>.\<close>

fun truthy :: "jsval \<Rightarrow> bool" where
  "truthy JUndefined = False"
| "truthy JNull = False"
| "truthy (JBool b) = b"
| "truthy (JNum n) = (n \<noteq> 0)"
| "truthy (JStr s) = (s \<noteq> [])"
| "truthy (JArr xs) = True"
| "truthy (JObj ps) = True"

text \<open>\<open>s.includes(t)\<close> on strings.\<close>

definition str_includes :: "string \<Rightarrow> string \<Rightarrow> bool" where
  "str_includes s t = sublist t s"

text \<open>\<open>parts.join(sep)\<close>.\<close>

fun join :: "string \<Rightarrow> string list \<Rightarrow> string" where
  "join sep [] = []"
| "join sep [x] = x"
| "join sep (x # y # ys) = x @ sep @ join sep (y # ys)"

definition digit_char :: "nat \<Rightarrow> char" where
  "digit_char d = ''0123456789ABCDEF'' ! d"

function show_nat :: "nat \<Rightarrow> string" where
  "show_nat n = (if n < 10 then [digit_char n] else show_nat (n div 10) @ [digit_char (n mod 10)])"
  by pat_completeness auto
termination
  by (relation "measure (\<lambda>n. n)") auto

declare show_nat.simps [simp del]

definition show_int :: "int \<Rightarrow> string" where
  "show_int i = (if i < 0 then CHR ''-'' # show_nat (nat (- i)) else show_nat (nat i))"

text \<open>
  \<open>JSON.stringify\<close>. A string is quoted with the escapes of ECMA-262 \<open>QuoteJSONString\<close>
  (a control character without a short escape is written as a \<open>u\<close> escape of four
  hexadecimal digits, in lower case); bytes above the control range pass through.
\<close>

definition hex_lower :: "nat \<Rightarrow> char" where
  "hex_lower d = ''0123456789abcdef'' ! d"

definition json_escape_char :: "char \<Rightarrow> string" where
  "json_escape_char c =
     (if c = CHR ''\"'' then [CHR 0x5C, CHR ''\"'']
      else if c = CHR 0x5C then [CHR 0x5C, CHR 0x5C]
      else if c = CHR 0x08 then [CHR 0x5C, CHR ''b'']
      else if c = CHR 0x0C then [CHR 0x5C, CHR ''f'']
      else if c = CHR 0x0A then [CHR 0x5C, CHR ''n'']
      else if c = CHR 0x0D then [CHR 0x5C, CHR ''r'']
      else if c = CHR 0x09 then [CHR 0x5C, CHR ''t'']
      else if (of_char c :: nat) < 32
        then [CHR 0x5C, CHR ''u'', CHR ''0'', CHR ''0'',
              hex_lower (of_char c div 16), hex_lower (of_char c mod 16)]
      else [c])"

definition json_quote :: "string \<Rightarrow> string" where
  "json_quote s = [CHR ''\"''] @ concat (map json_escape_char s) @ [CHR ''\"'']"

text \<open>
  \<open>None\<close> is the result \<open>undefined\<close>: an \<open>undefined\<close> array element is written \<open>null\<close>,
  an \<open>undefined\<close> property is left out.
\<close>

fun json_stringify :: "jsval \<Rightarrow> string option"
  and stringify_items :: "jsval list \<Rightarrow> string list"
  and stringify_props :: "(string \<times> jsval) list \<Rightarrow> string list" where
  "json_stringify JUndefined = None"
| "json_stringify JNull = Some ''null''"
| "json_stringify (JBool b) = Some (if b then ''true'' else ''false'')"
| "json_stringify (JNum n) = Some (show_int n)"
| "json_stringify (JStr s) = Some (json_quote s)"
| "json_stringify (JArr xs) = Some (''['' @ join '','' (stringify_items xs) @ '']'')"
| "json_stringify (JObj ps) = Some (''{'' @ join '','' (stringify_props ps) @ ''}'')"
| "stringify_items [] = []"
| "stringify_items (x # xs) =
     (case json_stringify x of None \<Rightarrow> ''null'' | Some s \<Rightarrow> s) # stringify_items xs"
| "stringify_props [] = []"
| "stringify_props (p # ps) =
     (case json_stringify (snd p) of
        None \<Rightarrow> stringify_props ps
      | Some s \<Rightarrow> (json_quote (fst p) @ '':'' @ s) # stringify_props ps)"

text \<open>
  \<open>JSON.parse(JSON.stringify(v))\<close> for a value \<open>v\<close> held in a property of the object
  that is serialized: a property whose value is \<open>undefined\<close> is left out and reads back
  as \<open>undefined\<close>, inside an array \<open>undefined\<close> comes back as \<open>null\<close>.
\<close>

fun json_roundtrip :: "jsval \<Rightarrow> jsval"
  and roundtrip_items :: "jsval list \<Rightarrow> jsval list"
  and roundtrip_props :: "(string \<times> jsval) list \<Rightarrow> (string \<times> jsval) list" where
  "json_roundtrip JUndefined = JUndefined"
| "json_roundtrip JNull = JNull"
| "json_roundtrip (JBool b) = JBool b"
| "json_roundtrip (JNum n) = JNum n"
| "json_roundtrip (JStr s) = JStr s"
| "json_roundtrip (JArr xs) = JArr (roundtrip_items xs)"
| "json_roundtrip (JObj ps) = JObj (roundtrip_props ps)"
| "roundtrip_items [] = []"
| "roundtrip_items (x # xs) =
     (case x of JUndefined \<Rightarrow> JNull | _ \<Rightarrow> json_roundtrip x) # roundtrip_items xs"
| "roundtrip_props [] = []"
| "roundtrip_props (p # ps) =
     (case snd p of
        JUndefined \<Rightarrow> roundtrip_props ps
      | _ \<Rightarrow> (fst p, json_roundtrip (snd p)) # roundtrip_props ps)"

text \<open>\<open>String(value)\<close>.\<close>

fun to_string :: "jsval \<Rightarrow> string"
  and to_string_items :: "jsval list \<Rightarrow> string list" where
  "to_string JUndefined = ''undefined''"
| "to_string JNull = ''null''"
| "to_string (JBool b) = (if b then ''true'' else ''false'')"
| "to_string (JNum n) = show_int n"
| "to_string (JStr s) = s"
| "to_string (JArr xs) = join '','' (to_string_items xs)"
| "to_string (JObj ps) = ''[object Object]''"
| "to_string_items [] = []"
| "to_string_items (x # xs) =
     (case x of JUndefined \<Rightarrow> [] | JNull \<Rightarrow> [] | _ \<Rightarrow> to_string x) # to_string_items xs"

section \<open>Types of \<open>src/types/index.ts\<close> and errors of \<open>src/errors/index.ts\<close>\<close>

datatype HttpMethod = GET | POST | PUT | DELETE | PATCH | HEAD | OPTIONS

fun method_name :: "HttpMethod \<Rightarrow> string" where
  "method_name GET = ''GET''"
| "method_name POST = ''POST''"
| "method_name PUT = ''PUT''"
| "method_name DELETE = ''DELETE''"
| "method_name PATCH = ''PATCH''"
| "method_name HEAD = ''HEAD''"
| "method_name OPTIONS = ''OPTIONS''"

datatype CacheStrategy = memory | localStorage | indexedDB | none

text \<open>
  A thrown value. \<open>cls\<close> is its class (what \<open>instanceof\<close> tests), \<open>NotError\<close> for a thrown
  value that is no \<open>Error\<close>, \<open>PlainError\<close> for \<open>Error\<close>, \<open>TypeError\<close>, \<open>DOMException\<close> and
  the like. \<open>response_status\<close> is \<open>error?.response?.status\<close>. The \<open>config\<close> every
  \<open>SmartFetchError\<close> carries is left out of the model.
\<close>

datatype ErrorClass =
    NotError | PlainError
  | SmartFetchError | NetworkError | TimeoutError | AbortError
  | ValidationError | RateLimitError | CacheError | GraphQLError

record thrown =
  cls :: ErrorClass
  ename :: string
  message :: string
  code :: "string option"
  response_status :: "int option"
  retryAfter :: "int option"

definition instanceof_Error :: "thrown \<Rightarrow> bool" where
  "instanceof_Error e = (cls e \<noteq> NotError)"

definition instanceof_SmartFetchError :: "thrown \<Rightarrow> bool" where
  "instanceof_SmartFetchError e = (cls e \<noteq> NotError \<and> cls e \<noteq> PlainError)"

definition new_SmartFetchError :: "string \<Rightarrow> string \<Rightarrow> thrown" where
  "new_SmartFetchError msg c =
     \<lparr>cls = SmartFetchError, ename = ''SmartFetchError'', message = msg, code = Some c,
      response_status = None, retryAfter = None\<rparr>"

definition new_NetworkError :: "string \<Rightarrow> thrown" where
  "new_NetworkError msg =
     \<lparr>cls = NetworkError, ename = ''NetworkError'', message = msg, code = Some ''NETWORK_ERROR'',
      response_status = None, retryAfter = None\<rparr>"

definition new_TimeoutError :: "string \<Rightarrow> thrown" where
  "new_TimeoutError msg =
     \<lparr>cls = TimeoutError, ename = ''TimeoutError'', message = msg, code = Some ''TIMEOUT_ERROR'',
      response_status = None, retryAfter = None\<rparr>"

definition new_AbortError :: "string \<Rightarrow> thrown" where
  "new_AbortError msg =
     \<lparr>cls = AbortError, ename = ''AbortError'', message = msg, code = Some ''ABORT_ERROR'',
      response_status = None, retryAfter = None\<rparr>"

definition new_ValidationError :: "string \<Rightarrow> thrown" where
  "new_ValidationError msg =
     \<lparr>cls = ValidationError, ename = ''ValidationError'', message = msg,
      code = Some ''VALIDATION_ERROR'', response_status = None, retryAfter = None\<rparr>"

definition new_RateLimitError :: "string \<Rightarrow> int \<Rightarrow> thrown" where
  "new_RateLimitError msg after =
     \<lparr>cls = RateLimitError, ename = ''RateLimitError'', message = msg,
      code = Some ''RATE_LIMIT_ERROR'', response_status = None, retryAfter = Some after\<rparr>"

record CacheConfig =
  strategy :: CacheStrategy
  ttl :: "int option"
  key :: "string option"

datatype cache_setting = CacheFlag bool | CacheCfg CacheConfig

record RetryConfig =
  maxRetries :: int
  delay :: int
  maxDelay :: "int option"
  backoff :: "int option"
  retryOn :: "int list option"
  retryCondition :: "(thrown \<Rightarrow> bool) option"

datatype retry_setting = RetryFlag bool | RetryCfg RetryConfig

record RateLimitConfig =
  maxRequests :: int
  perMilliseconds :: int
  queueRequests :: "bool option"

text \<open>
  \<open>RequestConfig\<close>. An optional property is an \<open>option\<close> (\<open>None\<close>: absent or \<open>undefined\<close>);
  \<open>body\<close> is \<open>JUndefined\<close> when absent. \<open>undefined_props\<close> lists the names of the
  properties that the object holds with the value \<open>undefined\<close> (as in
  \<open>{url, cache: undefined}\<close>), which a spread copies and an absent property does not
  have. A user function that may throw returns a sum. \<open>signal\<close>, the progress
  callbacks, \<open>priority\<close> and \<open>metadata\<close> are not represented: an abort shows as the
  outcome of the exchange.
\<close>

record RequestConfig =
  url :: string
  "method" :: "HttpMethod option"
  headers :: "(string \<times> string) list option"
  body :: jsval
  params :: "(string \<times> jsval) list option"
  timeout :: "int option"
  cache :: "cache_setting option"
  retry :: "retry_setting option"
  rateLimit :: "RateLimitConfig option"
  transformRequest :: "(jsval \<Rightarrow> thrown + jsval) option"
  transformResponse :: "(jsval \<Rightarrow> thrown + jsval) option"
  validateResponse :: "(jsval \<Rightarrow> thrown + jsval) option"
  credentials :: "string option"
  mode :: "string option"
  offlineQueueable :: "bool option"
  deduplicate :: "bool option"
  undefined_props :: "string list"

record SmartFetchResponse =
  data :: jsval
  status :: int
  statusText :: string
  res_headers :: "(string \<times> string) list"
  config :: RequestConfig
  cached :: "bool option"
  retryCount :: "int option"

record CacheEntry =
  entry_data :: jsval
  timestamp :: int
  entry_ttl :: "int option"
  entry_key :: string

section \<open>\<open>src/utils/index.ts\<close>\<close>

text \<open>\<open>/^([a-z][a-z\d+\-.]*:)?\/\//i.test(url)\<close>: an optional scheme, then two slashes.\<close>

definition is_alpha :: "char \<Rightarrow> bool" where
  "is_alpha c =
     (let n = (of_char c :: nat) in (97 \<le> n \<and> n \<le> 122) \<or> (65 \<le> n \<and> n \<le> 90))"

definition is_digit :: "char \<Rightarrow> bool" where
  "is_digit c = (let n = (of_char c :: nat) in 48 \<le> n \<and> n \<le> 57)"

definition is_scheme :: "string \<Rightarrow> bool" where
  "is_scheme s =
     (case s of
        [] \<Rightarrow> False
      | c # cs \<Rightarrow> is_alpha c \<and>
          list_all (\<lambda>d. is_alpha d \<or> is_digit d \<or> d = CHR ''+'' \<or> d = CHR ''-'' \<or> d = CHR ''.'') cs)"

definition isAbsoluteURL :: "string \<Rightarrow> bool" where
  "isAbsoluteURL u =
     (prefix ''//'' u \<or>
      (is_scheme (takeWhile (\<lambda>c. c \<noteq> CHR '':'') u) \<and>
       prefix ''://'' (dropWhile (\<lambda>c. c \<noteq> CHR '':'') u)))"

definition combineURLs :: "string \<Rightarrow> string \<Rightarrow> string" where
  "combineURLs baseURL relativeURL =
     (if relativeURL \<noteq> []
      then rev (dropWhile (\<lambda>c. c = CHR ''/'') (rev baseURL)) @ ''/'' @
           dropWhile (\<lambda>c. c = CHR ''/'') relativeURL
      else baseURL)"

text \<open>\<open>obj[k] = v\<close> on an object kept as a property list, and the spread \<open>{...a, ...b}\<close>.\<close>

fun obj_set :: "(string \<times> 'a) list \<Rightarrow> string \<Rightarrow> 'a \<Rightarrow> (string \<times> 'a) list" where
  "obj_set [] k v = [(k, v)]"
| "obj_set (p # ps) k v = (if fst p = k then (k, v) # ps else p # obj_set ps k v)"

definition obj_spread :: "(string \<times> 'a) list \<Rightarrow> (string \<times> 'a) list \<Rightarrow> (string \<times> 'a) list" where
  "obj_spread a b = foldl (\<lambda>acc p. obj_set acc (fst p) (snd p)) a b"

text \<open>
  \<open>new URLSearchParams(record).toString()\<close>: the application/x-www-form-urlencoded
  serializer of the URL standard, on the bytes of the string (percent escapes have
  upper-case digits).
\<close>

definition form_encode_char :: "char \<Rightarrow> string" where
  "form_encode_char c =
     (if c = CHR '' '' then ''+''
      else if is_alpha c \<or> is_digit c \<or> c = CHR ''*'' \<or> c = CHR ''-'' \<or> c = CHR ''.'' \<or> c = CHR ''_''
        then [c]
      else [CHR ''%'', digit_char (of_char c div 16), digit_char (of_char c mod 16)])"

definition form_encode :: "string \<Rightarrow> string" where
  "form_encode s = concat (map form_encode_char s)"

definition URLSearchParams_toString :: "(string \<times> string) list \<Rightarrow> string" where
  "URLSearchParams_toString ps = join ''&'' (map (\<lambda>p. form_encode (fst p) @ ''='' @ form_encode (snd p)) ps)"

text \<open>
  \<open>buildURL\<close>. The query record is built by \<open>acc[key] = String(value)\<close> on a plain
  object: for the key \<open>__proto__\<close> that assignment reaches the setter of
  \<open>Object.prototype\<close>, which ignores a string, and no property is made.
\<close>

definition buildURL :: "string option \<Rightarrow> string \<Rightarrow> (string \<times> jsval) list option \<Rightarrow> string" where
  "buildURL baseURL u ps =
     (let fullURL =
            (case baseURL of
               None \<Rightarrow> u
             | Some b \<Rightarrow> if b \<noteq> [] \<and> \<not> isAbsoluteURL u then combineURLs b u else u)
      in case ps of
           None \<Rightarrow> fullURL
         | Some kvs \<Rightarrow>
             (let queryString = URLSearchParams_toString
                    (foldl (\<lambda>acc p.
                        if snd p \<noteq> JNull \<and> snd p \<noteq> JUndefined \<and> fst p \<noteq> ''__proto__''
                        then obj_set acc (fst p) (to_string (snd p)) else acc) [] kvs)
              in if queryString \<noteq> []
                 then fullURL @ (if str_includes fullURL ''?'' then ''&'' else ''?'') @ queryString
                 else fullURL))"

text \<open>\<open>parts.push(x)\<close> for a stringified value; \<open>join\<close> writes \<open>undefined\<close> as the empty string.\<close>

definition push_json :: "string list \<Rightarrow> jsval \<Rightarrow> string list" where
  "push_json parts v = parts @ [case json_stringify v of None \<Rightarrow> [] | Some s \<Rightarrow> s]"

definition generateCacheKey :: "RequestConfig \<Rightarrow> string" where
  "generateCacheKey c =
     (let m = (case method c of None \<Rightarrow> GET | Some m' \<Rightarrow> m');
          parts = [method_name m, url c];
          parts1 = (case params c of None \<Rightarrow> parts | Some ps \<Rightarrow> push_json parts (JObj ps));
          parts2 = (if truthy (body c) \<and> m \<noteq> GET then push_json parts1 (body c) else parts1)
      in join ''|'' parts2)"

section \<open>Cache adapters and \<open>CacheManager\<close>\<close>

text \<open>
  \<open>Date.now()\<close> is the argument \<open>now\<close>. \<open>!entry.ttl\<close> holds for an absent ttl and for ttl 0.
\<close>

definition isExpired :: "int \<Rightarrow> CacheEntry \<Rightarrow> bool" where
  "isExpired now entry =
     (case entry_ttl entry of
        None \<Rightarrow> False
      | Some t \<Rightarrow> if t = 0 then False else now - timestamp entry > t)"

type_synonym store = "string \<rightharpoonup> CacheEntry"

subsection \<open>\<open>MemoryCacheAdapter\<close>: a \<open>Map\<close>\<close>

definition MemoryCacheAdapter_delete :: "string \<Rightarrow> store \<Rightarrow> store" where
  "MemoryCacheAdapter_delete k m = m(k := None)"

definition MemoryCacheAdapter_get :: "int \<Rightarrow> string \<Rightarrow> store \<Rightarrow> CacheEntry option \<times> store" where
  "MemoryCacheAdapter_get now k m =
     (case m k of
        None \<Rightarrow> (None, m)
      | Some entry \<Rightarrow>
          if isExpired now entry then (None, MemoryCacheAdapter_delete k m)
          else (Some entry, m))"

definition MemoryCacheAdapter_set :: "string \<Rightarrow> CacheEntry \<Rightarrow> store \<Rightarrow> store" where
  "MemoryCacheAdapter_set k v m = m(k \<mapsto> v)"

definition MemoryCacheAdapter_clear :: "store \<Rightarrow> store" where
  "MemoryCacheAdapter_clear m = Map.empty"

definition MemoryCacheAdapter_has :: "string \<Rightarrow> store \<Rightarrow> bool" where
  "MemoryCacheAdapter_has k m = (m k \<noteq> None)"

subsection \<open>\<open>LocalStorageCacheAdapter\<close>\<close>

text \<open>
  \<open>localStorage\<close> maps an item name to the JSON text of an entry, kept here as the entry
  that \<open>JSON.parse\<close> gives back for it: \<open>set\<close> stores the entry as it comes back from
  \<open>JSON.stringify\<close> and \<open>JSON.parse\<close>. Outside the model are an item that is not the
  text of an entry (\<open>get\<close> then answers null) and a \<open>setItem\<close> that throws for quota
  (\<open>set\<close> then clears the items with the prefix and calls \<open>setItem\<close> once more).
\<close>

definition stored_form :: "CacheEntry \<Rightarrow> CacheEntry" where
  "stored_form v = v\<lparr>entry_data := json_roundtrip (entry_data v)\<rparr>"

definition prefix_default :: string where
  "prefix_default = ''smart-fetch-cache:''"

definition LocalStorageCacheAdapter_delete :: "string \<Rightarrow> string \<Rightarrow> store \<Rightarrow> store" where
  "LocalStorageCacheAdapter_delete pre k ls = ls(pre @ k := None)"

definition LocalStorageCacheAdapter_get ::
    "string \<Rightarrow> int \<Rightarrow> string \<Rightarrow> store \<Rightarrow> CacheEntry option \<times> store" where
  "LocalStorageCacheAdapter_get pre now k ls =
     (case ls (pre @ k) of
        None \<Rightarrow> (None, ls)
      | Some entry \<Rightarrow>
          if isExpired now entry then (None, LocalStorageCacheAdapter_delete pre k ls)
          else (Some entry, ls))"

definition LocalStorageCacheAdapter_set :: "string \<Rightarrow> string \<Rightarrow> CacheEntry \<Rightarrow> store \<Rightarrow> store" where
  "LocalStorageCacheAdapter_set pre k v ls = ls(pre @ k \<mapsto> stored_form v)"

definition LocalStorageCacheAdapter_clear :: "string \<Rightarrow> store \<Rightarrow> store" where
  "LocalStorageCacheAdapter_clear pre ls = (\<lambda>name. if prefix pre name then None else ls name)"

definition LocalStorageCacheAdapter_has :: "string \<Rightarrow> string \<Rightarrow> store \<Rightarrow> bool" where
  "LocalStorageCacheAdapter_has pre k ls = (ls (pre @ k) \<noteq> None)"

subsection \<open>\<open>IndexedDBCacheAdapter\<close>\<close>

text \<open>
  The object store has \<open>keyPath: 'key'\<close>: \<open>db.put(storeName, value)\<close> files the entry under
  its own \<open>key\<close> field. Database failures are outside the model.
\<close>

definition IndexedDBCacheAdapter_delete :: "string \<Rightarrow> store \<Rightarrow> store" where
  "IndexedDBCacheAdapter_delete k db = db(k := None)"

definition IndexedDBCacheAdapter_get :: "int \<Rightarrow> string \<Rightarrow> store \<Rightarrow> CacheEntry option \<times> store" where
  "IndexedDBCacheAdapter_get now k db =
     (case db k of
        None \<Rightarrow> (None, db)
      | Some entry \<Rightarrow>
          if isExpired now entry then (None, IndexedDBCacheAdapter_delete k db)
          else (Some entry, db))"

definition IndexedDBCacheAdapter_set :: "string \<Rightarrow> CacheEntry \<Rightarrow> store \<Rightarrow> store" where
  "IndexedDBCacheAdapter_set k v db = db(entry_key v \<mapsto> v)"

definition IndexedDBCacheAdapter_clear :: "store \<Rightarrow> store" where
  "IndexedDBCacheAdapter_clear db = Map.empty"

definition IndexedDBCacheAdapter_has :: "string \<Rightarrow> store \<Rightarrow> bool" where
  "IndexedDBCacheAdapter_has k db = (db k \<noteq> None)"

subsection \<open>\<open>CacheManager\<close>\<close>

record CacheManager =
  memory_adapter :: store
  localStorage_adapter :: store
  indexedDB_adapter :: store

definition CacheManager_new :: CacheManager where
  "CacheManager_new =
     \<lparr>memory_adapter = Map.empty, localStorage_adapter = Map.empty, indexedDB_adapter = Map.empty\<rparr>"

definition CacheManager_get ::
    "int \<Rightarrow> CacheStrategy \<Rightarrow> string \<Rightarrow> CacheManager \<Rightarrow> CacheEntry option \<times> CacheManager" where
  "CacheManager_get now s k cm =
     (case s of
        none \<Rightarrow> (None, cm)
      | memory \<Rightarrow>
          (let r = MemoryCacheAdapter_get now k (memory_adapter cm)
           in (fst r, cm\<lparr>memory_adapter := snd r\<rparr>))
      | localStorage \<Rightarrow>
          (let r = LocalStorageCacheAdapter_get prefix_default now k (localStorage_adapter cm)
           in (fst r, cm\<lparr>localStorage_adapter := snd r\<rparr>))
      | indexedDB \<Rightarrow>
          (let r = IndexedDBCacheAdapter_get now k (indexedDB_adapter cm)
           in (fst r, cm\<lparr>indexedDB_adapter := snd r\<rparr>)))"

definition CacheManager_set :: "CacheStrategy \<Rightarrow> string \<Rightarrow> CacheEntry \<Rightarrow> CacheManager \<Rightarrow> CacheManager" where
  "CacheManager_set s k v cm =
     (case s of
        none \<Rightarrow> cm
      | memory \<Rightarrow> cm\<lparr>memory_adapter := MemoryCacheAdapter_set k v (memory_adapter cm)\<rparr>
      | localStorage \<Rightarrow>
          cm\<lparr>localStorage_adapter :=
               LocalStorageCacheAdapter_set prefix_default k v (localStorage_adapter cm)\<rparr>
      | indexedDB \<Rightarrow> cm\<lparr>indexedDB_adapter := IndexedDBCacheAdapter_set k v (indexedDB_adapter cm)\<rparr>)"

definition CacheManager_delete :: "CacheStrategy \<Rightarrow> string \<Rightarrow> CacheManager \<Rightarrow> CacheManager" where
  "CacheManager_delete s k cm =
     (case s of
        none \<Rightarrow> cm
      | memory \<Rightarrow> cm\<lparr>memory_adapter := MemoryCacheAdapter_delete k (memory_adapter cm)\<rparr>
      | localStorage \<Rightarrow>
          cm\<lparr>localStorage_adapter :=
               LocalStorageCacheAdapter_delete prefix_default k (localStorage_adapter cm)\<rparr>
      | indexedDB \<Rightarrow> cm\<lparr>indexedDB_adapter := IndexedDBCacheAdapter_delete k (indexedDB_adapter cm)\<rparr>)"

text \<open>
  The entry as a backend keeps it: \<open>localStorage\<close> keeps its JSON text, the \<open>Map\<close> and
  the object store keep the entry.
\<close>

definition kept_as :: "CacheStrategy \<Rightarrow> CacheEntry \<Rightarrow> CacheEntry" where
  "kept_as s v = (case s of localStorage \<Rightarrow> stored_form v | _ \<Rightarrow> v)"

text \<open>What the backend of a strategy holds under a key (the adapter's raw lookup).\<close>

definition backend_lookup :: "CacheStrategy \<Rightarrow> string \<Rightarrow> CacheManager \<Rightarrow> CacheEntry option" where
  "backend_lookup s k cm =
     (case s of
        none \<Rightarrow> None
      | memory \<Rightarrow> memory_adapter cm k
      | localStorage \<Rightarrow> localStorage_adapter cm (prefix_default @ k)
      | indexedDB \<Rightarrow> indexedDB_adapter cm k)"

section \<open>The client: \<open>src/core/SmartFetch.ts\<close>\<close>

subsection \<open>Hooks and client configuration\<close>

record RequestInterceptor =
  onRequest :: "(RequestConfig \<Rightarrow> thrown + RequestConfig) option"

record ResponseInterceptor =
  onResponse :: "(SmartFetchResponse \<Rightarrow> thrown + SmartFetchResponse) option"
  onResponseError :: "(thrown \<Rightarrow> thrown + thrown) option"

record Middleware =
  mw_name :: string
  mw_pre :: "(RequestConfig \<Rightarrow> thrown + RequestConfig) option"
  mw_post :: "(SmartFetchResponse \<Rightarrow> thrown + SmartFetchResponse) option"
  mw_error :: "(thrown \<Rightarrow> thrown + thrown) option"

text \<open>
  \<open>this.config\<close> after the constructor has filled in its defaults, together with the
  middleware list of the \<open>MiddlewareManager\<close>. The request-level names \<open>headers\<close>,
  \<open>timeout\<close>, \<open>cache\<close>, \<open>retry\<close> and \<open>rateLimit\<close> carry the prefix \<open>default_\<close> here.
\<close>

record SmartFetchConfig =
  baseURL :: "string option"
  default_headers :: "(string \<times> string) list option"
  default_timeout :: "int option"
  default_cache :: "cache_setting option"
  default_retry :: "retry_setting option"
  default_rateLimit :: "RateLimitConfig option"
  request_interceptors :: "RequestInterceptor list"
  response_interceptors :: "ResponseInterceptor list"
  middleware :: "Middleware list"
  mockMode :: bool
  offlineQueueEnabled :: bool
  validateStatus :: "int \<Rightarrow> bool"

text \<open>\<open>new SmartFetch()\<close>: the defaults of the constructor.\<close>

definition SmartFetchConfig_default :: SmartFetchConfig where
  "SmartFetchConfig_default =
     \<lparr>baseURL = None, default_headers = None, default_timeout = Some 30000,
      default_cache = Some (CacheFlag False), default_retry = Some (RetryFlag False),
      default_rateLimit = None, request_interceptors = [], response_interceptors = [],
      middleware = [], mockMode = False, offlineQueueEnabled = True,
      validateStatus = (\<lambda>s. 200 \<le> s \<and> s < 300)\<rparr>"

text \<open>A request given by its url alone: \<open>{ url }\<close>.\<close>

definition request_of_url :: "string \<Rightarrow> RequestConfig" where
  "request_of_url u =
     \<lparr>url = u, method = None, headers = None, body = JUndefined, params = None,
      timeout = None, cache = None, retry = None, rateLimit = None, transformRequest = None,
      transformResponse = None, validateResponse = None, credentials = None, mode = None,
      offlineQueueable = None, deduplicate = None, undefined_props = []\<rparr>"

text \<open>
  \<open>mergeRequestConfig\<close>: \<open>mergeConfig({method: 'GET', ..., ...config}, config)\<close>, the
  defaults under the request's own properties. The spread puts every own property of
  \<open>config\<close> over the default, also one whose value is \<open>undefined\<close>, and \<open>mergeConfig\<close>
  then leaves it as it is: a default is in force only for a property that \<open>config\<close> does
  not have.
\<close>

definition mergeRequestConfig :: "SmartFetchConfig \<Rightarrow> RequestConfig \<Rightarrow> RequestConfig" where
  "mergeRequestConfig C c =
     c\<lparr>method := (case method c of
                    None \<Rightarrow> if ''method'' \<in> set (undefined_props c) then None else Some GET
                  | Some m \<Rightarrow> Some m),
       timeout := (case timeout c of
                     None \<Rightarrow> if ''timeout'' \<in> set (undefined_props c) then None else default_timeout C
                   | Some t \<Rightarrow> Some t),
       cache := (case cache c of
                   None \<Rightarrow> if ''cache'' \<in> set (undefined_props c) then None else default_cache C
                 | Some x \<Rightarrow> Some x),
       retry := (case retry c of
                   None \<Rightarrow> if ''retry'' \<in> set (undefined_props c) then None else default_retry C
                 | Some x \<Rightarrow> Some x),
       rateLimit := (case rateLimit c of
                       None \<Rightarrow> if ''rateLimit'' \<in> set (undefined_props c) then None else default_rateLimit C
                     | Some x \<Rightarrow> Some x),
       deduplicate := (case deduplicate c of
                         None \<Rightarrow> if ''deduplicate'' \<in> set (undefined_props c) then None else Some True
                       | Some b \<Rightarrow> Some b),
       offlineQueueable := (case offlineQueueable c of
                              None \<Rightarrow> if ''offlineQueueable'' \<in> set (undefined_props c) then None else Some True
                            | Some b \<Rightarrow> Some b)\<rparr>"

fun executePre :: "Middleware list \<Rightarrow> RequestConfig \<Rightarrow> thrown + RequestConfig" where
  "executePre [] c = Inr c"
| "executePre (m # ms) c =
     (case mw_pre m of
        None \<Rightarrow> executePre ms c
      | Some f \<Rightarrow> (case f c of Inl e \<Rightarrow> Inl e | Inr c' \<Rightarrow> executePre ms c'))"

fun executePost :: "Middleware list \<Rightarrow> SmartFetchResponse \<Rightarrow> thrown + SmartFetchResponse" where
  "executePost [] r = Inr r"
| "executePost (m # ms) r =
     (case mw_post m of
        None \<Rightarrow> executePost ms r
      | Some f \<Rightarrow> (case f r of Inl e \<Rightarrow> Inl e | Inr r' \<Rightarrow> executePost ms r'))"

text \<open>
  The error chains end in a throw either way: \<open>Inl\<close> when a hook itself throws, \<open>Inr\<close> the
  processed error that \<open>request\<close> then throws.
\<close>

fun executeError :: "Middleware list \<Rightarrow> thrown \<Rightarrow> thrown + thrown" where
  "executeError [] e = Inr e"
| "executeError (m # ms) e =
     (case mw_error m of
        None \<Rightarrow> executeError ms e
      | Some f \<Rightarrow> (case f e of Inl e' \<Rightarrow> Inl e' | Inr e' \<Rightarrow> executeError ms e'))"

fun run_onRequest :: "RequestInterceptor list \<Rightarrow> RequestConfig \<Rightarrow> thrown + RequestConfig" where
  "run_onRequest [] c = Inr c"
| "run_onRequest (i # is) c =
     (case onRequest i of
        None \<Rightarrow> run_onRequest is c
      | Some f \<Rightarrow> (case f c of Inl e \<Rightarrow> Inl e | Inr c' \<Rightarrow> run_onRequest is c'))"

fun run_onResponse ::
    "ResponseInterceptor list \<Rightarrow> SmartFetchResponse \<Rightarrow> thrown + SmartFetchResponse" where
  "run_onResponse [] r = Inr r"
| "run_onResponse (i # is) r =
     (case onResponse i of
        None \<Rightarrow> run_onResponse is r
      | Some f \<Rightarrow> (case f r of Inl e \<Rightarrow> Inl e | Inr r' \<Rightarrow> run_onResponse is r'))"

fun run_onResponseError :: "ResponseInterceptor list \<Rightarrow> thrown \<Rightarrow> thrown + thrown" where
  "run_onResponseError [] e = Inr e"
| "run_onResponseError (i # is) e =
     (case onResponseError i of
        None \<Rightarrow> run_onResponseError is e
      | Some f \<Rightarrow> (case f e of Inl e' \<Rightarrow> Inl e' | Inr e' \<Rightarrow> run_onResponseError is e'))"

text \<open>The \<open>catch\<close> block of \<open>request\<close>: what the caller's promise rejects with.\<close>

definition request_catch :: "SmartFetchConfig \<Rightarrow> thrown \<Rightarrow> thrown" where
  "request_catch C e =
     (case run_onResponseError (response_interceptors C) e of
        Inl e' \<Rightarrow> e'
      | Inr e1 \<Rightarrow> (case executeError (middleware C) e1 of Inl e' \<Rightarrow> e' | Inr e2 \<Rightarrow> e2))"

subsection \<open>The exchange handed to \<open>fetch\<close>\<close>

record FetchCall =
  fetch_url :: string
  fetch_method :: string
  fetch_headers :: "(string \<times> string) list"
  fetch_body :: "string option"
  fetch_credentials :: "string option"
  fetch_mode :: "string option"

definition is_object :: "jsval \<Rightarrow> bool" where
  "is_object v = (case v of JArr _ \<Rightarrow> True | JObj _ \<Rightarrow> True | JNull \<Rightarrow> True | _ \<Rightarrow> False)"

definition buildHeaders :: "SmartFetchConfig \<Rightarrow> RequestConfig \<Rightarrow> (string \<times> string) list" where
  "buildHeaders C c =
     (let hs = obj_spread (case default_headers C of None \<Rightarrow> [] | Some h \<Rightarrow> h)
                          (case headers c of None \<Rightarrow> [] | Some h \<Rightarrow> h)
      in if truthy (body c) \<and> is_object (body c) \<and>
            (case map_of hs ''Content-Type'' of None \<Rightarrow> True | Some v \<Rightarrow> v = [])
         then obj_set hs ''Content-Type'' ''application/json''
         else hs)"

text \<open>
  The url and options that \<open>executeRequest\<close> passes to \<open>fetch\<close> (\<open>signal\<close> apart);
  \<open>Inl\<close> when \<open>transformRequest\<close> throws.
\<close>

definition fetch_call :: "SmartFetchConfig \<Rightarrow> RequestConfig \<Rightarrow> thrown + FetchCall" where
  "fetch_call C c =
     (let u = buildURL (baseURL C) (url c) (params c);
          transformed =
            (case transformRequest c of
               Some f \<Rightarrow> if truthy (body c) then f (body c) else Inr (body c)
             | None \<Rightarrow> Inr (body c))
      in case transformed of
           Inl e \<Rightarrow> Inl e
         | Inr b \<Rightarrow>
             Inr \<lparr>fetch_url = u,
                  fetch_method = method_name (case method c of None \<Rightarrow> GET | Some m \<Rightarrow> m),
                  fetch_headers = buildHeaders C c,
                  fetch_body =
                    (if truthy b
                     then (case b of JStr s \<Rightarrow> Some s | _ \<Rightarrow> json_stringify b)
                     else None),
                  fetch_credentials = credentials c,
                  fetch_mode = mode c\<rparr>)"

text \<open>
  HTTP's idempotent methods (RFC 9110, 9.2.2); the source has no such notion and this is
  used only to read the wording of the specification.
\<close>

fun http_idempotent :: "HttpMethod \<Rightarrow> bool" where
  "http_idempotent POST = False"
| "http_idempotent PATCH = False"
| "http_idempotent _ = True"

subsection \<open>The transport\<close>

text \<open>
  What \<open>fetch\<close> resolves with: \<open>raw_json\<close>, \<open>raw_text\<close> and \<open>raw_blob\<close> are the outcomes of
  the body readers \<open>response.json()\<close>, \<open>response.text()\<close> and \<open>response.blob()\<close>. Header
  names are lower case, as \<open>Headers\<close> keeps them.
\<close>

record RawResponse =
  raw_status :: int
  raw_statusText :: string
  raw_headers :: "(string \<times> string) list"
  raw_json :: "thrown + jsval"
  raw_text :: "thrown + jsval"
  raw_blob :: "thrown + jsval"

text \<open>
  The transport is a parameter: \<open>tr n call\<close> is how the exchange started by the \<open>n\<close>-th
  call of \<open>fetch\<close> (counted from 0) ends, \<open>Inl\<close> a rejection (network failure, abort).
\<close>

type_synonym transport = "nat \<Rightarrow> FetchCall \<Rightarrow> thrown + RawResponse"

definition parseResponse :: "RawResponse \<Rightarrow> thrown + jsval" where
  "parseResponse response =
     (let contentType = (case map_of (raw_headers response) ''content-type'' of
                           None \<Rightarrow> [] | Some v \<Rightarrow> v)
      in if str_includes contentType ''application/json'' then raw_json response
         else if str_includes contentType ''text/'' then raw_text response
         else if str_includes contentType ''application/octet-stream'' \<or>
                 str_includes contentType ''image/'' then raw_blob response
         else raw_text response)"

subsection \<open>The instance\<close>

record limiter =
  tokens :: int
  lastRefill :: int

record OfflineQueueEntry =
  entry_id :: string
  entry_config :: RequestConfig
  queuedAt :: int
  entry_retryCount :: int

text \<open>
  An \<open>OfflineQueue\<close>: \<open>entries\<close> is the object store \<open>queue\<close> (key path \<open>id\<close>), kept in
  the order of its keys, which is the order in which \<open>getAll\<close> returns it; \<open>notified\<close>
  records each call of \<open>notifyListeners\<close>, by the id of the entry at whose turn it was
  made.
\<close>

record OfflineQueue =
  entries :: "OfflineQueueEntry list"
  isProcessing :: bool
  notified :: "string list"

datatype url_pattern = UrlString string | UrlRegExp string "string \<Rightarrow> bool"

record MockConfig =
  mock_url :: url_pattern
  mock_method :: "HttpMethod option"
  mock_response :: jsval
  mock_status :: "int option"

text \<open>
  The mutable fields of a \<open>SmartFetch\<close> instance and what it has done to the outside.
  A promise of \<open>executeRequest\<close> is named by the number of the call that made it.
  \<open>clock\<close> is what \<open>Date.now()\<close> reads, \<open>online\<close> is \<open>navigator.onLine\<close>;
  \<open>fetch_log\<close>, \<open>sleep_log\<close> and \<open>cache_log\<close> record every call of \<open>fetch\<close>, of \<open>sleep\<close>
  and of \<open>cacheManager.set\<close>, in order.
\<close>

record SmartFetch =
  cacheManager :: CacheManager
  pendingRequests :: "string \<rightharpoonup> nat"
  rateLimiters :: "string \<rightharpoonup> limiter"
  mockResponses :: "(string \<times> MockConfig) list"
  offlineQueue :: OfflineQueue
  clock :: int
  online :: bool
  fetch_log :: "FetchCall list"
  sleep_log :: "int list"
  cache_log :: "(CacheStrategy \<times> string \<times> CacheEntry) list"

definition SmartFetch_new :: "int \<Rightarrow> SmartFetch" where
  "SmartFetch_new t =
     \<lparr>cacheManager = CacheManager_new, pendingRequests = Map.empty, rateLimiters = Map.empty,
      mockResponses = [],
      offlineQueue = \<lparr>entries = [], isProcessing = False, notified = []\<rparr>,
      clock = t, online = True, fetch_log = [], sleep_log = [], cache_log = []\<rparr>"

text \<open>\<open>await sleep(ms)\<close>: the timer fires once \<open>ms\<close> milliseconds have passed.\<close>

definition sleep :: "int \<Rightarrow> SmartFetch \<Rightarrow> SmartFetch" where
  "sleep ms st = st\<lparr>clock := clock st + max 0 ms, sleep_log := sleep_log st @ [ms]\<rparr>"

subsection \<open>Cache coordinator\<close>

definition cache_truthy :: "cache_setting option \<Rightarrow> bool" where
  "cache_truthy x = (case x of None \<Rightarrow> False | Some (CacheFlag b) \<Rightarrow> b | Some (CacheCfg _) \<Rightarrow> True)"

text \<open>\<open>typeof config.cache === 'object' ? config.cache : { strategy: 'memory' }\<close>.\<close>

definition cacheConfig_of :: "cache_setting option \<Rightarrow> CacheConfig" where
  "cacheConfig_of x =
     (case x of
        Some (CacheCfg cc) \<Rightarrow> cc
      | _ \<Rightarrow> \<lparr>strategy = memory, ttl = None, key = None\<rparr>)"

text \<open>\<open>cacheConfig.key || cacheKey\<close>.\<close>

definition effective_key :: "CacheConfig \<Rightarrow> string \<Rightarrow> string" where
  "effective_key cc cacheKey = (case key cc of None \<Rightarrow> cacheKey | Some k \<Rightarrow> if k = [] then cacheKey else k)"

definition checkCache ::
    "RequestConfig \<Rightarrow> string \<Rightarrow> SmartFetch \<Rightarrow> SmartFetchResponse option \<times> SmartFetch" where
  "checkCache c cacheKey st =
     (if \<not> cache_truthy (cache c) then (None, st)
      else
        let cc = cacheConfig_of (cache c);
            r = CacheManager_get (clock st) (strategy cc) (effective_key cc cacheKey) (cacheManager st);
            st' = st\<lparr>cacheManager := snd r\<rparr>
        in case fst r of
             Some entry \<Rightarrow>
               (Some \<lparr>data = entry_data entry, status = 200, statusText = ''OK'', res_headers = [],
                      config = c, cached = Some True, retryCount = None\<rparr>, st')
           | None \<Rightarrow> (None, st'))"

definition cacheResponse :: "RequestConfig \<Rightarrow> string \<Rightarrow> SmartFetchResponse \<Rightarrow> SmartFetch \<Rightarrow> SmartFetch" where
  "cacheResponse c cacheKey response st =
     (if \<not> cache_truthy (cache c) then st
      else
        let cc = cacheConfig_of (cache c);
            k = effective_key cc cacheKey;
            entry = \<lparr>entry_data = data response, timestamp = clock st, entry_ttl = ttl cc, entry_key = k\<rparr>
        in st\<lparr>cacheManager := CacheManager_set (strategy cc) k entry (cacheManager st),
              cache_log := cache_log st @ [(strategy cc, k, entry)]\<rparr>)"

subsection \<open>Rate limiter\<close>

text \<open>
  \<open>Proceeded\<close>: the check returned at once; \<open>Waited ms\<close>: it went through \<open>sleep(ms)\<close>.
  \<open>Math.floor(timePassed / perMilliseconds)\<close> is \<open>div\<close> for a non-zero interval; an
  interval of 0 (a division by zero, \<open>Infinity\<close> or \<open>NaN\<close>) is outside the model.
\<close>

datatype rate_outcome = Proceeded | Waited int

text \<open>\<open>config.rateLimit || this.config.rateLimit\<close>.\<close>

definition effective_rateLimit :: "SmartFetchConfig \<Rightarrow> RequestConfig \<Rightarrow> RateLimitConfig option" where
  "effective_rateLimit C c = (case rateLimit c of Some r \<Rightarrow> Some r | None \<Rightarrow> default_rateLimit C)"

text \<open>
  \<open>checkRateLimit\<close> from its start to its only \<open>await\<close>. \<open>Inr Proceeded\<close>: the call has
  returned with one token taken. \<open>Inr (Waited waitTime)\<close>: the bucket is empty and the
  policy queues, the call is suspended at \<open>await sleep(waitTime)\<close> and the bucket is as
  the refill step left it. \<open>Inl\<close>: the \<open>RateLimitError\<close> it throws.
\<close>

definition checkRateLimit_enter ::
    "SmartFetchConfig \<Rightarrow> RequestConfig \<Rightarrow> SmartFetch \<Rightarrow> (thrown + rate_outcome) \<times> SmartFetch" where
  "checkRateLimit_enter C c st =
     (case effective_rateLimit C c of
        None \<Rightarrow> (Inr Proceeded, st)
      | Some rateLimitConfig \<Rightarrow>
          let k = url c;
              l0 = (case rateLimiters st k of
                      None \<Rightarrow> \<lparr>tokens = maxRequests rateLimitConfig, lastRefill = clock st\<rparr>
                    | Some l \<Rightarrow> l);
              timePassed = clock st - lastRefill l0;
              refills = timePassed div perMilliseconds rateLimitConfig;
              l1 = (if refills > 0
                    then \<lparr>tokens = min (maxRequests rateLimitConfig)
                                        (tokens l0 + refills * maxRequests rateLimitConfig),
                          lastRefill = clock st\<rparr>
                    else l0)
          in if tokens l1 < 1
             then
               let waitTime = perMilliseconds rateLimitConfig - (clock st - lastRefill l1)
               in if queueRequests rateLimitConfig = Some True
                  then (Inr (Waited waitTime), st\<lparr>rateLimiters := (rateLimiters st)(k \<mapsto> l1)\<rparr>)
                  else (Inl (new_RateLimitError ''Rate limit exceeded'' waitTime),
                        st\<lparr>rateLimiters := (rateLimiters st)(k \<mapsto> l1)\<rparr>)
             else (Inr Proceeded,
                   st\<lparr>rateLimiters := (rateLimiters st)(k \<mapsto> l1\<lparr>tokens := tokens l1 - 1\<rparr>)\<rparr>))"

text \<open>
  The rest of \<open>checkRateLimit\<close>, run once the timer of \<open>sleep\<close> has fired:
  \<open>limiter.tokens = maxRequests; limiter.lastRefill = Date.now(); limiter.tokens--\<close>.
  \<open>limiter\<close> is the object of the map (no entry of \<open>rateLimiters\<close> is ever replaced
  or removed), and the reset does not look at what the bucket holds by then: every call
  that has slept puts the bucket at \<open>maxRequests - 1\<close> and proceeds.
\<close>

definition checkRateLimit_wake :: "SmartFetchConfig \<Rightarrow> RequestConfig \<Rightarrow> SmartFetch \<Rightarrow> SmartFetch" where
  "checkRateLimit_wake C c st =
     (case effective_rateLimit C c of
        None \<Rightarrow> st
      | Some rateLimitConfig \<Rightarrow>
          st\<lparr>rateLimiters := (rateLimiters st)
                 (url c \<mapsto> \<lparr>tokens = maxRequests rateLimitConfig - 1, lastRefill = clock st\<rparr>)\<rparr>)"

text \<open>
  A check that runs from start to end with nothing else in between: if it has to sleep,
  no other call touches the bucket before it wakes. Checks that sleep at the same time
  are steps of the event loop below.
\<close>

definition checkRateLimit ::
    "SmartFetchConfig \<Rightarrow> RequestConfig \<Rightarrow> SmartFetch \<Rightarrow> (thrown + rate_outcome) \<times> SmartFetch" where
  "checkRateLimit C c st =
     (let r = checkRateLimit_enter C c st
      in case fst r of
           Inr (Waited waitTime) \<Rightarrow>
             (Inr (Waited waitTime), checkRateLimit_wake C c (sleep waitTime (snd r)))
         | _ \<Rightarrow> r)"

text \<open>
  A check at time \<open>t0\<close> opens a window of the bucket of endpoint \<open>k\<close>: the bucket does
  not exist yet (a cold start), or at least one whole interval \<open>P\<close> has passed since its
  last refill (a rollover; the bucket is refilled to \<open>maxRequests\<close> and \<open>lastRefill\<close>
  becomes \<open>t0\<close>).
\<close>

definition window_opens :: "SmartFetch \<Rightarrow> string \<Rightarrow> int \<Rightarrow> int \<Rightarrow> bool" where
  "window_opens st k P t0 =
     (case rateLimiters st k of
        None \<Rightarrow> True
      | Some l \<Rightarrow> 0 \<le> tokens l \<and> lastRefill l + P \<le> t0)"

text \<open>
  A series of checks for the same request, issued at the given times one after the other:
  each one has returned, after its sleep if it had to sleep, before the next is issued.
\<close>

fun rate_checks ::
    "SmartFetchConfig \<Rightarrow> RequestConfig \<Rightarrow> int list \<Rightarrow> SmartFetch \<Rightarrow> (thrown + rate_outcome) list \<times> SmartFetch" where
  "rate_checks C c [] st = ([], st)"
| "rate_checks C c (t # ts) st =
     (let r = checkRateLimit C c (st\<lparr>clock := t\<rparr>);
          rs = rate_checks C c ts (snd r)
      in (fst r # fst rs, snd rs))"

subsection \<open>Retry engine\<close>

definition retry_truthy :: "retry_setting option \<Rightarrow> bool" where
  "retry_truthy x = (case x of None \<Rightarrow> False | Some (RetryFlag b) \<Rightarrow> b | Some (RetryCfg _) \<Rightarrow> True)"

definition getRetryConfig :: "SmartFetchConfig \<Rightarrow> RequestConfig \<Rightarrow> RetryConfig option" where
  "getRetryConfig C c =
     (if \<not> retry_truthy (retry c) \<and> \<not> retry_truthy (default_retry C) then None
      else
        case (if retry_truthy (retry c) then retry c else default_retry C) of
          Some (RetryFlag b) \<Rightarrow>
            if b then Some \<lparr>maxRetries = 3, delay = 1000, maxDelay = None, backoff = Some 2,
                           retryOn = None, retryCondition = None\<rparr>
            else None
        | Some (RetryCfg rc) \<Rightarrow> Some rc
        | None \<Rightarrow> None)"

definition shouldRetry :: "thrown \<Rightarrow> int \<Rightarrow> RetryConfig \<Rightarrow> bool" where
  "shouldRetry error n rc =
     (if n \<ge> maxRetries rc then False
      else
        case retryCondition rc of
          Some accepts \<Rightarrow> accepts error
        | None \<Rightarrow>
            (case retryOn rc of
               Some codes \<Rightarrow>
                 (case response_status error of
                    Some s \<Rightarrow> if s \<noteq> 0 then s \<in> set codes else False
                  | None \<Rightarrow> False)
             | None \<Rightarrow>
                 if cls error = NetworkError \<or> cls error = TimeoutError then True
                 else (case response_status error of Some s \<Rightarrow> s \<ge> 500 | None \<Rightarrow> False)))"

text \<open>
  \<open>config.delay * Math.pow(backoff, retryCount)\<close>, on integers: \<open>delay\<close>, \<open>backoff\<close> and
  \<open>maxDelay\<close> are whole numbers, and the product is exact, where the source rounds to a
  double above \<open>2^53\<close> and ends at \<open>Infinity\<close>.
\<close>

definition calculateRetryDelay :: "int \<Rightarrow> RetryConfig \<Rightarrow> int" where
  "calculateRetryDelay n rc =
     (let b = (case backoff rc of None \<Rightarrow> 2 | Some x \<Rightarrow> if x = 0 then 2 else x);
          d = delay rc * b ^ nat n
      in case maxDelay rc of
           None \<Rightarrow> d
         | Some m \<Rightarrow> if m = 0 then d else min d m)"

subsection \<open>\<open>executeRequest\<close>\<close>

text \<open>
  The \<open>try\<close> block of one attempt, in two parts. \<open>attempt_finish\<close> is what follows
  \<open>await fetch(url, fetchOptions)\<close> once the exchange has ended as \<open>outcome\<close>: status
  validation, parsing, response transformation, schema validation, the envelope and the
  cache write. \<open>Inl\<close> is what the block throws, to be caught by the \<open>catch\<close> block of the
  same attempt.
\<close>

definition attempt_finish ::
    "SmartFetchConfig \<Rightarrow> RequestConfig \<Rightarrow> string \<Rightarrow> int \<Rightarrow> thrown + RawResponse \<Rightarrow> SmartFetch
       \<Rightarrow> (thrown + SmartFetchResponse) \<times> SmartFetch" where
  "attempt_finish C c cacheKey n outcome st1 =
     (case outcome of
        Inl e \<Rightarrow> (Inl e, st1)
      | Inr response \<Rightarrow>
          if \<not> validateStatus C (raw_status response)
          then (Inl (new_SmartFetchError
                       (''Request failed with status '' @ show_int (raw_status response))
                       (''HTTP_'' @ show_int (raw_status response))), st1)
          else
            case parseResponse response of
              Inl e \<Rightarrow> (Inl e, st1)
            | Inr d0 \<Rightarrow>
                case (case transformResponse c of None \<Rightarrow> Inr d0 | Some f \<Rightarrow> f d0) of
                  Inl e \<Rightarrow> (Inl e, st1)
                | Inr d1 \<Rightarrow>
                    case (case validateResponse c of None \<Rightarrow> Inr d1 | Some parse \<Rightarrow> parse d1) of
                      Inl e \<Rightarrow> (Inl (new_ValidationError ''Response validation failed''), st1)
                    | Inr d2 \<Rightarrow>
                        let smartResponse =
                              \<lparr>data = d2, status = raw_status response,
                               statusText = raw_statusText response,
                               res_headers = raw_headers response, config = c,
                               cached = None, retryCount = Some n\<rparr>
                        in (Inr smartResponse, cacheResponse c cacheKey smartResponse st1))"

text \<open>
  The whole \<open>try\<close> block: the options are built (\<open>transformRequest\<close> may throw), \<open>fetch\<close>
  is called, and the attempt goes on with the outcome of the exchange.
\<close>

definition executeRequest_try ::
    "SmartFetchConfig \<Rightarrow> transport \<Rightarrow> RequestConfig \<Rightarrow> string \<Rightarrow> int \<Rightarrow> SmartFetch
       \<Rightarrow> (thrown + SmartFetchResponse) \<times> SmartFetch" where
  "executeRequest_try C tr c cacheKey n st =
     (case fetch_call C c of
        Inl e \<Rightarrow> (Inl e, st)
      | Inr call \<Rightarrow>
          attempt_finish C c cacheKey n (tr (length (fetch_log st)) call)
            (st\<lparr>fetch_log := fetch_log st @ [call]\<rparr>))"

text \<open>
  The start of the \<open>catch\<close> block: an abort or a timeout is rethrown at once, before the
  retry logic is reached.
\<close>

definition rethrown_at_once :: "thrown \<Rightarrow> thrown option" where
  "rethrown_at_once error =
     (if instanceof_Error error \<and> ename error = ''AbortError''
        then Some (new_AbortError ''Request aborted'')
      else if instanceof_Error error \<and> str_includes (message error) ''timeout''
        then Some (new_TimeoutError ''Request timeout'')
      else None)"

text \<open>The end of the \<open>catch\<close> block: a foreign error is wrapped in a \<open>NetworkError\<close>.\<close>

definition wrap_error :: "thrown \<Rightarrow> thrown" where
  "wrap_error error =
     (if \<not> instanceof_SmartFetchError error
      then new_NetworkError (if instanceof_Error error then message error else ''Network request failed'')
      else error)"

text \<open>
  The \<open>catch\<close> block of one attempt decides between throwing and another attempt after a
  delay.
\<close>

datatype catch_decision = Throw thrown | Retry int

definition executeRequest_catch ::
    "SmartFetchConfig \<Rightarrow> RequestConfig \<Rightarrow> int \<Rightarrow> thrown \<Rightarrow> catch_decision" where
  "executeRequest_catch C c n error =
     (case rethrown_at_once error of
        Some e \<Rightarrow> Throw e
      | None \<Rightarrow>
          (case getRetryConfig C c of
             None \<Rightarrow> Throw (wrap_error error)
           | Some retryConfig \<Rightarrow>
               if shouldRetry error n retryConfig
               then Retry (calculateRetryDelay n retryConfig)
               else Throw (wrap_error error)))"

text \<open>
  \<open>executeRequest\<close> with the exchanges run to their end one after the other; \<open>n\<close> is
  \<open>retryCount\<close>.
\<close>

function executeRequest ::
    "SmartFetchConfig \<Rightarrow> transport \<Rightarrow> RequestConfig \<Rightarrow> string \<Rightarrow> int \<Rightarrow> SmartFetch
       \<Rightarrow> (thrown + SmartFetchResponse) \<times> SmartFetch" where
  "executeRequest C tr c cacheKey n st =
     (case executeRequest_try C tr c cacheKey n st of
        (Inr response, st1) \<Rightarrow> (Inr response, st1)
      | (Inl error, st1) \<Rightarrow>
          (case executeRequest_catch C c n error of
             Throw e \<Rightarrow> (Inl e, st1)
           | Retry ms \<Rightarrow> executeRequest C tr c cacheKey (n + 1) (sleep ms st1)))"
  by pat_completeness auto
termination
  by (relation "measure (\<lambda>(C, tr, c, cacheKey, n, st).
          nat ((case getRetryConfig C c of None \<Rightarrow> 0 | Some rc \<Rightarrow> maxRetries rc) - n))")
     (auto simp add: executeRequest_catch_def shouldRetry_def split: if_splits option.splits)

declare executeRequest.simps [simp del]

subsection \<open>Mock responses\<close>

definition addMock :: "MockConfig \<Rightarrow> SmartFetch \<Rightarrow> SmartFetch" where
  "addMock mock st =
     st\<lparr>mockResponses :=
          obj_set (mockResponses st)
            (case mock_url mock of UrlString u \<Rightarrow> u | UrlRegExp src _ \<Rightarrow> src) mock\<rparr>"

fun getMockResponse :: "(string \<times> MockConfig) list \<Rightarrow> RequestConfig \<Rightarrow> SmartFetchResponse option" where
  "getMockResponse [] c = None"
| "getMockResponse (km # rest) c =
     (let mock = snd km;
          urlMatch = (case mock_url mock of UrlString u \<Rightarrow> url c = u | UrlRegExp _ test \<Rightarrow> test (url c));
          methodMatch = (mock_method mock = None \<or> mock_method mock = method c)
      in if urlMatch \<and> methodMatch
         then Some \<lparr>data = mock_response mock,
                    status = (case mock_status mock of None \<Rightarrow> 200 | Some s \<Rightarrow> if s = 0 then 200 else s),
                    statusText = ''OK'', res_headers = [], config = c, cached = None,
                    retryCount = None\<rparr>
         else getMockResponse rest c)"

section \<open>The offline queue\<close>

text \<open>
  The order of string keys in an object store: by code unit, a proper prefix first.
\<close>

fun key_less :: "string \<Rightarrow> string \<Rightarrow> bool" where
  "key_less [] [] = False"
| "key_less [] (y # ys) = True"
| "key_less (x # xs) [] = False"
| "key_less (x # xs) (y # ys) =
     ((of_char x :: nat) < of_char y \<or> (x = y \<and> key_less xs ys))"

text \<open>\<open>db.put\<close>: the entry replaces the one with its id, or is added at the place of its key.\<close>

fun put_entry :: "OfflineQueueEntry \<Rightarrow> OfflineQueueEntry list \<Rightarrow> OfflineQueueEntry list" where
  "put_entry e [] = [e]"
| "put_entry e (x # xs) =
     (if entry_id x = entry_id e then e # xs
      else if key_less (entry_id e) (entry_id x) then e # x # xs
      else x # put_entry e xs)"

text \<open>
  The structured clone that \<open>db.add\<close> makes of the entry fails on a function: on a
  config with \<open>transformRequest\<close>, \<open>transformResponse\<close>, a \<open>retryCondition\<close> or a schema
  in \<open>validateResponse\<close> (an object with methods).
\<close>

definition cloneable :: "RequestConfig \<Rightarrow> bool" where
  "cloneable c =
     (Option.is_none (transformRequest c) \<and> Option.is_none (transformResponse c)
      \<and> Option.is_none (validateResponse c)
      \<and> (case retry c of
             Some (RetryCfg rc) \<Rightarrow> Option.is_none (retryCondition rc)
           | _ \<Rightarrow> True))"

text \<open>
  \<open>enqueue\<close>: the id is \<open>Date.now()\<close>, a dash and a random suffix \<open>rnd\<close>. \<open>db.add\<close> throws
  a \<open>DataCloneError\<close> for an entry that cannot be cloned and rejects a key that is already
  in the store (the messages of these two are the browser's).
\<close>

definition OfflineQueue_enqueue ::
    "string \<Rightarrow> int \<Rightarrow> RequestConfig \<Rightarrow> OfflineQueue \<Rightarrow> thrown + (string \<times> OfflineQueue)" where
  "OfflineQueue_enqueue rnd t c q =
     (let i = show_int t @ ''-'' @ rnd;
          entry = \<lparr>entry_id = i, entry_config = c, queuedAt = t, entry_retryCount = 0\<rparr>
      in if \<not> cloneable c
         then Inl \<lparr>cls = PlainError, ename = ''DataCloneError'',
                   message = ''The object could not be cloned'',
                   code = None, response_status = None, retryAfter = None\<rparr>
         else if i \<in> set (map entry_id (entries q))
         then Inl \<lparr>cls = PlainError, ename = ''ConstraintError'', message = ''Key already exists'',
                   code = None, response_status = None, retryAfter = None\<rparr>
         else Inr (i, q\<lparr>entries := put_entry entry (entries q)\<rparr>))"

definition OfflineQueue_dequeue :: "string \<Rightarrow> OfflineQueue \<Rightarrow> OfflineQueue" where
  "OfflineQueue_dequeue i q = q\<lparr>entries := filter (\<lambda>e. entry_id e \<noteq> i) (entries q)\<rparr>"

text \<open>
  The loop of \<open>processQueue\<close> over the entries read by \<open>getAll\<close>. For each entry the
  listeners are notified (\<open>notifyListeners\<close> returns nothing: the listener that
  \<open>SmartFetch\<close> registers starts \<open>processOfflineQueue\<close> and drops its promise) and the
  entry is dequeued. The \<open>catch\<close> branch is entered only when something in the \<open>try\<close>
  block throws, which is the deletion failing in the store: \<open>delete_fails i\<close> says
  whether \<open>db.delete\<close> rejects for id \<open>i\<close>. The first component is the error that leaves
  the loop, if any.
\<close>

fun processQueue_loop ::
    "(string \<Rightarrow> bool) \<Rightarrow> OfflineQueueEntry list \<Rightarrow> OfflineQueue \<Rightarrow> thrown option \<times> OfflineQueue" where
  "processQueue_loop delete_fails [] q = (None, q)"
| "processQueue_loop delete_fails (entry # rest) q =
     (let q1 = q\<lparr>notified := notified q @ [entry_id entry]\<rparr>
      in if \<not> delete_fails (entry_id entry)
         then processQueue_loop delete_fails rest (OfflineQueue_dequeue (entry_id entry) q1)
         else
           let updated = entry\<lparr>entry_retryCount := entry_retryCount entry + 1\<rparr>
           in if entry_retryCount updated > 3
              then (Some \<lparr>cls = PlainError, ename = ''Error'', message = ''delete failed'',
                          code = None, response_status = None, retryAfter = None\<rparr>, q1)
              else processQueue_loop delete_fails rest (q1\<lparr>entries := put_entry updated (entries q1)\<rparr>))"

definition processQueue ::
    "bool \<Rightarrow> (string \<Rightarrow> bool) \<Rightarrow> OfflineQueue \<Rightarrow> thrown option \<times> OfflineQueue" where
  "processQueue is_online delete_fails q =
     (if isProcessing q \<or> \<not> is_online then (None, q)
      else
        let r = processQueue_loop delete_fails (entries q) (q\<lparr>isProcessing := True\<rparr>)
        in (fst r, (snd r)\<lparr>isProcessing := False\<rparr>))"

section \<open>\<open>request\<close> on the event loop\<close>

text \<open>
  \<open>request\<close> is an \<open>async\<close> function: each \<open>await\<close> suspends the call, and its continuation
  is run later from the microtask queue, first in, first out, also when the awaited
  promise is settled already. A call of \<open>request\<close> is a task, kept as the \<open>await\<close> it is
  suspended at together with what it has computed so far:
  \<^item> \<open>AwaitPre\<close>: \<open>await this.middlewareManager.executePre(mergedConfig)\<close>;
  \<^item> \<open>AwaitCache\<close>: \<open>await this.checkCache(processedConfig, cacheKey)\<close>;
  \<^item> \<open>AwaitSleep\<close>: inside \<open>checkRateLimit\<close>, at \<open>await sleep(waitTime)\<close>, with the
    time at which the timer is due;
  \<^item> \<open>AfterSleep\<close>: the timer has fired and the rest of \<open>checkRateLimit\<close> is queued;
  \<^item> \<open>AwaitRateLimit\<close>: \<open>await this.checkRateLimit(processedConfig)\<close>, the check has
    returned or thrown;
  \<^item> \<open>AwaitEnqueue\<close>: \<open>await this.offlineQueue.enqueue(processedConfig)\<close>;
  \<^item> \<open>AwaitExchange\<close>: \<open>await requestPromise\<close>, the promise of its own \<open>executeRequest\<close>;
  \<^item> \<open>AwaitShared\<close>: \<open>return pendingRequest\<close>, the call settles as that promise does;
  \<^item> \<open>Returned\<close>: the call has settled.
  Hooks are functions of their argument alone.

  Granularity. The steps are the awaits listed above. The call that is awaited is taken
  to settle in the turn in which it is made, as \<open>executePre\<close> without hooks, \<open>checkCache\<close>
  with caching off and \<open>checkRateLimit\<close> with a token do; the further turns that it takes
  when it awaits in its turn (a chain of hooks, a cache lookup through the
  \<open>CacheManager\<close>, the database of the offline queue) are not counted. The awaits of
  the interceptors, of \<open>executePost\<close> and of \<open>executeError\<close> have no step of their own:
  they run within the step that they follow. The sleep of a queued rate-limit check is a
  step of its own, ended by its timer.
\<close>

datatype task =
    AwaitPre "thrown + RequestConfig"
  | AwaitCache RequestConfig string "SmartFetchResponse option"
  | AwaitSleep RequestConfig string int int
  | AfterSleep RequestConfig string int
  | AwaitRateLimit RequestConfig string "thrown + rate_outcome"
  | AwaitEnqueue RequestConfig "thrown + string"
  | AwaitExchange RequestConfig string nat
  | AwaitShared nat
  | Returned "thrown + SmartFetchResponse"

text \<open>
  A call of \<open>executeRequest\<close> made by \<open>request\<close>, with the attempt it is at: \<open>InFlight\<close>
  while \<open>fetch\<close> is outstanding, \<open>Sleeping\<close> during the backoff delay, then settled.
\<close>

datatype exchange_state = InFlight | Sleeping | Fulfilled SmartFetchResponse | Rejected thrown

record exchange =
  ex_config :: RequestConfig
  ex_cacheKey :: string
  ex_retryCount :: int
  ex_state :: exchange_state

record world =
  client :: SmartFetch
  exchanges :: "exchange list"
  tasks :: "task list"
  microtasks :: "nat list"

definition world_new :: "SmartFetch \<Rightarrow> world" where
  "world_new st = \<lparr>client = st, exchanges = [], tasks = [], microtasks = []\<rparr>"

text \<open>
  The caller evaluates \<open>request(config)\<close>: the call runs up to its first \<open>await\<close>.
\<close>

definition call_request :: "SmartFetchConfig \<Rightarrow> RequestConfig \<Rightarrow> world \<Rightarrow> world" where
  "call_request C c w =
     w\<lparr>tasks := tasks w @ [AwaitPre (executePre (middleware C) (mergeRequestConfig C c))],
       microtasks := microtasks w @ [length (tasks w)]\<rparr>"

definition is_settled :: "exchange_state \<Rightarrow> bool" where
  "is_settled s = (case s of InFlight \<Rightarrow> False | Sleeping \<Rightarrow> False | _ \<Rightarrow> True)"

definition is_in_flight :: "exchange_state \<Rightarrow> bool" where
  "is_in_flight s = (case s of InFlight \<Rightarrow> True | _ \<Rightarrow> False)"

definition is_sleeping :: "exchange_state \<Rightarrow> bool" where
  "is_sleeping s = (case s of Sleeping \<Rightarrow> True | _ \<Rightarrow> False)"

definition waits_for :: "nat \<Rightarrow> task \<Rightarrow> bool" where
  "waits_for p t = (case t of AwaitExchange _ _ q \<Rightarrow> q = p | AwaitShared q \<Rightarrow> q = p | _ \<Rightarrow> False)"

text \<open>The promise of exchange \<open>p\<close> settles: the calls that wait for it become ready.\<close>

definition settle_exchange :: "nat \<Rightarrow> exchange_state \<Rightarrow> world \<Rightarrow> world" where
  "settle_exchange p s w =
     w\<lparr>exchanges := (exchanges w)[p := (exchanges w ! p)\<lparr>ex_state := s\<rparr>],
       microtasks := microtasks w @ filter (\<lambda>i. waits_for p (tasks w ! i)) [0..<length (tasks w)]\<rparr>"

text \<open>The \<open>catch\<close> block of the attempt of exchange \<open>p\<close>, entered with \<open>error\<close>.\<close>

definition after_failure :: "SmartFetchConfig \<Rightarrow> nat \<Rightarrow> thrown \<Rightarrow> world \<Rightarrow> world" where
  "after_failure C p error w =
     (let x = exchanges w ! p
      in case executeRequest_catch C (ex_config x) (ex_retryCount x) error of
           Throw e \<Rightarrow> settle_exchange p (Rejected e) w
         | Retry ms \<Rightarrow>
             w\<lparr>client := (client w)\<lparr>sleep_log := sleep_log (client w) @ [ms]\<rparr>,
               exchanges := (exchanges w)[p := x\<lparr>ex_retryCount := ex_retryCount x + 1,
                                                 ex_state := Sleeping\<rparr>]\<rparr>)"

text \<open>
  An attempt of exchange \<open>p\<close> starts: the options are built and \<open>fetch\<close> is called.
\<close>

definition begin_attempt :: "SmartFetchConfig \<Rightarrow> nat \<Rightarrow> world \<Rightarrow> world" where
  "begin_attempt C p w =
     (let x = exchanges w ! p
      in case fetch_call C (ex_config x) of
           Inl e \<Rightarrow> after_failure C p e w
         | Inr call \<Rightarrow>
             w\<lparr>client := (client w)\<lparr>fetch_log := fetch_log (client w) @ [call]\<rparr>,
               exchanges := (exchanges w)[p := x\<lparr>ex_state := InFlight\<rparr>]\<rparr>)"

text \<open>
  Events from outside: the transport ends the outstanding exchange of \<open>p\<close> with \<open>outcome\<close>;
  the backoff timer of \<open>p\<close> fires; the timer of the rate-limit sleep of task \<open>i\<close> fires,
  once it is due; time passes.
\<close>

definition transport_settles :: "SmartFetchConfig \<Rightarrow> nat \<Rightarrow> thrown + RawResponse \<Rightarrow> world \<Rightarrow> world" where
  "transport_settles C p outcome w =
     (if p < length (exchanges w) \<and> is_in_flight (ex_state (exchanges w ! p))
      then
        let x = exchanges w ! p;
            r = attempt_finish C (ex_config x) (ex_cacheKey x) (ex_retryCount x) outcome (client w);
            w1 = w\<lparr>client := snd r\<rparr>
        in case fst r of
             Inr response \<Rightarrow> settle_exchange p (Fulfilled response) w1
           | Inl error \<Rightarrow> after_failure C p error w1
      else w)"

definition timer_fires :: "SmartFetchConfig \<Rightarrow> nat \<Rightarrow> world \<Rightarrow> world" where
  "timer_fires C p w =
     (if p < length (exchanges w) \<and> is_sleeping (ex_state (exchanges w ! p))
      then begin_attempt C p w else w)"

definition rate_timer_fires :: "nat \<Rightarrow> world \<Rightarrow> world" where
  "rate_timer_fires i w =
     (if i < length (tasks w)
      then
        (case tasks w ! i of
           AwaitSleep processedConfig cacheKey waitTime due \<Rightarrow>
             if due \<le> clock (client w)
             then w\<lparr>tasks := (tasks w)[i := AfterSleep processedConfig cacheKey waitTime],
                    microtasks := microtasks w @ [i]\<rparr>
             else w
         | _ \<Rightarrow> w)
      else w)"

definition time_passes :: "int \<Rightarrow> world \<Rightarrow> world" where
  "time_passes ms w = w\<lparr>client := (client w)\<lparr>clock := clock (client w) + max 0 ms\<rparr>\<rparr>"

text \<open>
  The continuation of task \<open>i\<close>, from the \<open>await\<close> it is suspended at to the next one.
  \<open>rnd\<close> is the random suffix of the id, should the step enqueue the request.
\<close>

definition suspend :: "nat \<Rightarrow> task \<Rightarrow> world \<Rightarrow> world" where
  "suspend i t w = w\<lparr>tasks := (tasks w)[i := t], microtasks := microtasks w @ [i]\<rparr>"

definition finish :: "nat \<Rightarrow> thrown + SmartFetchResponse \<Rightarrow> world \<Rightarrow> world" where
  "finish i r w = w\<lparr>tasks := (tasks w)[i := Returned r]\<rparr>"

definition resume :: "SmartFetchConfig \<Rightarrow> string \<Rightarrow> nat \<Rightarrow> world \<Rightarrow> world" where
  "resume C rnd i w =
     (case tasks w ! i of
        AwaitPre (Inl e) \<Rightarrow> finish i (Inl (request_catch C e)) w
      | AwaitPre (Inr c1) \<Rightarrow>
          (case run_onRequest (request_interceptors C) c1 of
             Inl e \<Rightarrow> finish i (Inl (request_catch C e)) w
           | Inr processedConfig \<Rightarrow>
               (case (if mockMode C then getMockResponse (mockResponses (client w)) processedConfig
                      else None) of
                  Some mockResponse \<Rightarrow> finish i (Inr mockResponse) w
                | None \<Rightarrow>
                    let cacheKey = generateCacheKey processedConfig;
                        r = checkCache processedConfig cacheKey (client w)
                    in suspend i (AwaitCache processedConfig cacheKey (fst r)) (w\<lparr>client := snd r\<rparr>)))
      | AwaitCache processedConfig cacheKey (Some cachedResponse) \<Rightarrow> finish i (Inr cachedResponse) w
      | AwaitCache processedConfig cacheKey None \<Rightarrow>
          (case (if deduplicate processedConfig \<noteq> Some False
                 then pendingRequests (client w) cacheKey else None) of
             Some p \<Rightarrow>
               (if is_settled (ex_state (exchanges w ! p))
                then suspend i (AwaitShared p) w
                else w\<lparr>tasks := (tasks w)[i := AwaitShared p]\<rparr>)
           | None \<Rightarrow>
               let r = checkRateLimit_enter C processedConfig (client w)
               in case fst r of
                    Inr (Waited waitTime) \<Rightarrow>
                      w\<lparr>client := (snd r)\<lparr>sleep_log := sleep_log (snd r) @ [waitTime]\<rparr>,
                        tasks := (tasks w)[i := AwaitSleep processedConfig cacheKey waitTime
                                                  (clock (snd r) + max 0 waitTime)]\<rparr>
                  | Inr Proceeded \<Rightarrow>
                      suspend i (AwaitRateLimit processedConfig cacheKey (Inr Proceeded))
                        (w\<lparr>client := snd r\<rparr>)
                  | Inl e \<Rightarrow>
                      suspend i (AwaitRateLimit processedConfig cacheKey (Inl e)) (w\<lparr>client := snd r\<rparr>))
      | AwaitSleep processedConfig cacheKey waitTime due \<Rightarrow> w
      | AfterSleep processedConfig cacheKey waitTime \<Rightarrow>
          suspend i (AwaitRateLimit processedConfig cacheKey (Inr (Waited waitTime)))
            (w\<lparr>client := checkRateLimit_wake C processedConfig (client w)\<rparr>)
      | AwaitRateLimit processedConfig cacheKey (Inl e) \<Rightarrow> finish i (Inl (request_catch C e)) w
      | AwaitRateLimit processedConfig cacheKey (Inr _) \<Rightarrow>
          (if \<not> online (client w) \<and> offlineQueueable processedConfig \<noteq> Some False
              \<and> offlineQueueEnabled C
           then
             (case OfflineQueue_enqueue rnd (clock (client w)) processedConfig (offlineQueue (client w)) of
                Inl e \<Rightarrow> suspend i (AwaitEnqueue processedConfig (Inl e)) w
              | Inr iq \<Rightarrow>
                  suspend i (AwaitEnqueue processedConfig (Inr (fst iq)))
                    (w\<lparr>client := (client w)\<lparr>offlineQueue := snd iq\<rparr>\<rparr>))
           else
             let p = length (exchanges w);
                 w1 = begin_attempt C p
                        (w\<lparr>exchanges := exchanges w @
                              [\<lparr>ex_config = processedConfig, ex_cacheKey = cacheKey,
                                ex_retryCount = 0, ex_state = InFlight\<rparr>]\<rparr>);
                 w2 = (if deduplicate processedConfig \<noteq> Some False
                       then w1\<lparr>client := (client w1)
                                 \<lparr>pendingRequests := (pendingRequests (client w1))(cacheKey \<mapsto> p)\<rparr>\<rparr>
                       else w1)
             in if is_settled (ex_state (exchanges w2 ! p))
                then suspend i (AwaitExchange processedConfig cacheKey p) w2
                else w2\<lparr>tasks := (tasks w2)[i := AwaitExchange processedConfig cacheKey p]\<rparr>)
      | AwaitEnqueue processedConfig (Inl e) \<Rightarrow> finish i (Inl (request_catch C e)) w
      | AwaitEnqueue processedConfig (Inr _) \<Rightarrow>
          finish i (Inl (request_catch C (new_NetworkError ''Request queued for offline processing''))) w
      | AwaitExchange processedConfig cacheKey p \<Rightarrow>
          (case ex_state (exchanges w ! p) of
             Fulfilled response \<Rightarrow>
               (case run_onResponse (response_interceptors C) response of
                  Inl e \<Rightarrow> finish i (Inl (request_catch C e)) w
                | Inr r1 \<Rightarrow>
                    (case executePost (middleware C) r1 of
                       Inl e \<Rightarrow> finish i (Inl (request_catch C e)) w
                     | Inr r2 \<Rightarrow>
                         finish i (Inr r2)
                           (if deduplicate processedConfig \<noteq> Some False
                            then w\<lparr>client := (client w)
                                   \<lparr>pendingRequests := (pendingRequests (client w))(cacheKey := None)\<rparr>\<rparr>
                            else w)))
           | Rejected e \<Rightarrow> finish i (Inl (request_catch C e)) w
           | _ \<Rightarrow> w)
      | AwaitShared p \<Rightarrow>
          (case ex_state (exchanges w ! p) of
             Fulfilled response \<Rightarrow> finish i (Inr response) w
           | Rejected e \<Rightarrow> finish i (Inl e) w
           | _ \<Rightarrow> w)
      | Returned r \<Rightarrow> w)"

text \<open>The event loop runs the first microtask of the queue; \<open>run_microtasks\<close> runs several.\<close>

definition run_microtask :: "SmartFetchConfig \<Rightarrow> string \<Rightarrow> world \<Rightarrow> world" where
  "run_microtask C rnd w =
     (case microtasks w of
        [] \<Rightarrow> w
      | i # rest \<Rightarrow> resume C rnd i (w\<lparr>microtasks := rest\<rparr>))"

fun run_microtasks :: "SmartFetchConfig \<Rightarrow> string \<Rightarrow> nat \<Rightarrow> world \<Rightarrow> world" where
  "run_microtasks C rnd 0 w = w"
| "run_microtasks C rnd (Suc k) w = run_microtasks C rnd k (run_microtask C rnd w)"

text \<open>The exchanges that are outstanding for a fingerprint.\<close>

definition in_flight :: "string \<Rightarrow> world \<Rightarrow> nat" where
  "in_flight cacheKey w =
     length (filter (\<lambda>x. ex_cacheKey x = cacheKey \<and> is_in_flight (ex_state x)) (exchanges w))"

section \<open>Cache expiry\<close>

lemma isExpired_before:
  "entry_ttl e = Some t \<Longrightarrow> t \<noteq> 0 \<Longrightarrow> \<not> isExpired (timestamp e + t - 1) e"
  by (simp add: isExpired_def)

lemma isExpired_after:
  "entry_ttl e = Some t \<Longrightarrow> t \<noteq> 0 \<Longrightarrow> isExpired (timestamp e + t + 1) e"
  by (simp add: isExpired_def)

lemma isExpired_stored_form: "isExpired t (stored_form e) = isExpired t e"
  by (simp add: isExpired_def stored_form_def split: option.splits)

lemmas adapter_defs =
  MemoryCacheAdapter_get_def MemoryCacheAdapter_set_def MemoryCacheAdapter_delete_def
  MemoryCacheAdapter_has_def
  LocalStorageCacheAdapter_get_def LocalStorageCacheAdapter_set_def
  LocalStorageCacheAdapter_delete_def LocalStorageCacheAdapter_has_def
  IndexedDBCacheAdapter_get_def IndexedDBCacheAdapter_set_def IndexedDBCacheAdapter_delete_def
  IndexedDBCacheAdapter_has_def

text \<open>
  C3, as stated: an entry with ttl \<open>t\<close> stored at \<open>storedAt\<close> is returned by a read at
  \<open>storedAt + t - 1\<close>, and a read at \<open>storedAt + t + 1\<close> returns absent and deletes it.
  This fails for \<open>t = 0\<close>: \<open>isExpired\<close> starts with \<open>if (!entry.ttl) return false\<close>, so an
  entry with ttl 0 never expires and the read one millisecond after it was stored still
  returns it and leaves it in the backend.
\<close>

theorem C3_ttl_zero_counterexample:
  "fst (CacheManager_get (1000 + 0 + 1) memory ''k''
          (CacheManager_set memory ''k''
             \<lparr>entry_data = JNull, timestamp = 1000, entry_ttl = Some 0, entry_key = ''k''\<rparr>
             CacheManager_new)) \<noteq> None
   \<and> backend_lookup memory ''k''
        (snd (CacheManager_get (1000 + 0 + 1) memory ''k''
          (CacheManager_set memory ''k''
             \<lparr>entry_data = JNull, timestamp = 1000, entry_ttl = Some 0, entry_key = ''k''\<rparr>
             CacheManager_new))) \<noteq> None"
  by (simp add: CacheManager_get_def CacheManager_set_def CacheManager_new_def backend_lookup_def
        isExpired_def adapter_defs)

text \<open>
  C3, amended: for every backend other than \<open>none\<close> and every entry with a non-zero ttl \<open>t\<close>
  stored at \<open>storedAt\<close> under its key, the entry sits in the backend (as the backend keeps
  it: \<open>localStorage\<close> holds the JSON text of the entry); a read at \<open>storedAt + t - 1\<close>
  returns it and changes nothing; a read at \<open>storedAt + t + 1\<close> returns absent and leaves
  the backend without the entry. Nothing but that read removes it.
\<close>

theorem C3_ttl_read_window:
  assumes "s \<noteq> none" and "entry_ttl e = Some t" and "t \<noteq> 0"
    and "timestamp e = storedAt" and "entry_key e = k"
    and "cm' = CacheManager_set s k e cm"
  shows "backend_lookup s k cm' = Some (kept_as s e)
       \<and> CacheManager_get (storedAt + t - 1) s k cm' = (Some (kept_as s e), cm')
       \<and> fst (CacheManager_get (storedAt + t + 1) s k cm') = None
       \<and> backend_lookup s k (snd (CacheManager_get (storedAt + t + 1) s k cm')) = None"
  using assms isExpired_before[of e t] isExpired_after[of e t]
  by (cases s; simp add: CacheManager_get_def CacheManager_set_def backend_lookup_def adapter_defs
        kept_as_def isExpired_stored_form)

theorem C3_ttl_read_window_witness:
  "backend_lookup memory ''k''
     (CacheManager_set memory ''k''
        \<lparr>entry_data = JStr ''v'', timestamp = 1000, entry_ttl = Some 5000, entry_key = ''k''\<rparr>
        CacheManager_new)
     = Some \<lparr>entry_data = JStr ''v'', timestamp = 1000, entry_ttl = Some 5000, entry_key = ''k''\<rparr>
   \<and> fst (CacheManager_get 5999 memory ''k''
        (CacheManager_set memory ''k''
           \<lparr>entry_data = JStr ''v'', timestamp = 1000, entry_ttl = Some 5000, entry_key = ''k''\<rparr>
           CacheManager_new))
     = Some \<lparr>entry_data = JStr ''v'', timestamp = 1000, entry_ttl = Some 5000, entry_key = ''k''\<rparr>
   \<and> fst (CacheManager_get 6001 memory ''k''
        (CacheManager_set memory ''k''
           \<lparr>entry_data = JStr ''v'', timestamp = 1000, entry_ttl = Some 5000, entry_key = ''k''\<rparr>
           CacheManager_new))
     = None
   \<and> backend_lookup memory ''k''
        (snd (CacheManager_get 6001 memory ''k''
           (CacheManager_set memory ''k''
              \<lparr>entry_data = JStr ''v'', timestamp = 1000, entry_ttl = Some 5000, entry_key = ''k''\<rparr>
              CacheManager_new)))
     = None"
  using C3_ttl_read_window
    [of memory "\<lparr>entry_data = JStr ''v'', timestamp = 1000, entry_ttl = Some 5000, entry_key = ''k''\<rparr>"
        5000 1000 "''k''" _ CacheManager_new, OF _ _ _ _ _ refl]
  by (simp add: kept_as_def)

text \<open>
  C10: in each of the three adapters, for a key that holds an entry whose ttl has elapsed
  (\<open>isExpired\<close> at the time of the call), \<open>has\<close> answers true, and \<open>get\<close> answers null and
  removes the entry: \<open>has\<close> looks only at the presence of the key.
\<close>

theorem C10_has_ignores_ttl:
  assumes "isExpired now e"
  shows "(m k = Some e \<longrightarrow>
            MemoryCacheAdapter_has k m \<and> MemoryCacheAdapter_get now k m = (None, m(k := None)))
       \<and> (ls (pre @ k) = Some e \<longrightarrow>
            LocalStorageCacheAdapter_has pre k ls \<and>
            LocalStorageCacheAdapter_get pre now k ls = (None, ls(pre @ k := None)))
       \<and> (db k = Some e \<longrightarrow>
            IndexedDBCacheAdapter_has k db \<and>
            IndexedDBCacheAdapter_get now k db = (None, db(k := None)))"
  using assms by (simp add: adapter_defs)

theorem C10_has_ignores_ttl_witness:
  "isExpired 20000 \<lparr>entry_data = JNull, timestamp = 10000, entry_ttl = Some 5000, entry_key = ''k''\<rparr>
   \<and> MemoryCacheAdapter_has ''k''
        [''k'' \<mapsto> \<lparr>entry_data = JNull, timestamp = 10000, entry_ttl = Some 5000, entry_key = ''k''\<rparr>]
   \<and> fst (MemoryCacheAdapter_get 20000 ''k''
        [''k'' \<mapsto> \<lparr>entry_data = JNull, timestamp = 10000, entry_ttl = Some 5000, entry_key = ''k''\<rparr>])
       = None
   \<and> LocalStorageCacheAdapter_has prefix_default ''k''
        [prefix_default @ ''k'' \<mapsto>
           \<lparr>entry_data = JNull, timestamp = 10000, entry_ttl = Some 5000, entry_key = ''k''\<rparr>]
   \<and> fst (LocalStorageCacheAdapter_get prefix_default 20000 ''k''
        [prefix_default @ ''k'' \<mapsto>
           \<lparr>entry_data = JNull, timestamp = 10000, entry_ttl = Some 5000, entry_key = ''k''\<rparr>])
       = None
   \<and> IndexedDBCacheAdapter_has ''k''
        [''k'' \<mapsto> \<lparr>entry_data = JNull, timestamp = 10000, entry_ttl = Some 5000, entry_key = ''k''\<rparr>]
   \<and> fst (IndexedDBCacheAdapter_get 20000 ''k''
        [''k'' \<mapsto> \<lparr>entry_data = JNull, timestamp = 10000, entry_ttl = Some 5000, entry_key = ''k''\<rparr>])
       = None"
proof -
  let ?e = "\<lparr>entry_data = JNull, timestamp = 10000, entry_ttl = Some 5000, entry_key = ''k''\<rparr>"
  have ex: "isExpired 20000 ?e" by (simp add: isExpired_def)
  from C10_has_ignores_ttl[OF ex, of "[''k'' \<mapsto> ?e]" "''k''"
      "[prefix_default @ ''k'' \<mapsto> ?e]" prefix_default "[''k'' \<mapsto> ?e]"]
  show ?thesis using ex by simp
qed

section \<open>The fingerprint\<close>

lemma join_snoc: "xs \<noteq> [] \<Longrightarrow> join sep (xs @ [x]) = join sep xs @ sep @ x"
  by (induction sep xs rule: join.induct) auto

lemma truthy_stringify: "truthy v \<Longrightarrow> \<exists>s. json_stringify v = Some s"
  by (cases v) auto

lemma generateCacheKey_body:
  assumes "truthy (body c)" and "(case method c of None \<Rightarrow> GET | Some m \<Rightarrow> m) \<noteq> GET"
  shows "\<exists>s. json_stringify (body c) = Some s \<and>
     generateCacheKey c = generateCacheKey (c\<lparr>body := JUndefined\<rparr>) @ ''|'' @ s"
proof -
  from truthy_stringify[OF assms(1)] obtain s where s: "json_stringify (body c) = Some s" by blast
  have "generateCacheKey c = generateCacheKey (c\<lparr>body := JUndefined\<rparr>) @ ''|'' @ s"
    using assms s
    by (simp add: generateCacheKey_def Let_def push_json_def join_snoc split: option.splits)
  with s show ?thesis by blast
qed

text \<open>
  C8, as stated: the fingerprint includes the body only for non-idempotent methods, and two
  requests that are indistinguishable at the transport boundary have the same fingerprint.
  Both parts fail. A request without \<open>params\<close> and one with the empty \<open>params\<close> object give
  \<open>fetch\<close> the same url and the same options, yet their fingerprints are \<open>GET|/x\<close> and
  \<open>GET|/x|{}\<close>: \<open>generateCacheKey\<close> stringifies \<open>params\<close> as they are and normalises
  nothing. And the body is included for every method but GET: two PUT requests (PUT is
  idempotent) with different bodies have different fingerprints.
\<close>

theorem C8_fingerprint_counterexample:
  "fetch_call SmartFetchConfig_default
       (mergeRequestConfig SmartFetchConfig_default (request_of_url ''/x''))
     = fetch_call SmartFetchConfig_default
         (mergeRequestConfig SmartFetchConfig_default ((request_of_url ''/x'')\<lparr>params := Some []\<rparr>))
   \<and> generateCacheKey (mergeRequestConfig SmartFetchConfig_default (request_of_url ''/x''))
     \<noteq> generateCacheKey
         (mergeRequestConfig SmartFetchConfig_default ((request_of_url ''/x'')\<lparr>params := Some []\<rparr>))
   \<and> http_idempotent PUT
   \<and> generateCacheKey ((request_of_url ''/x'')\<lparr>method := Some PUT, body := JStr ''a''\<rparr>)
     \<noteq> generateCacheKey ((request_of_url ''/x'')\<lparr>method := Some PUT, body := JStr ''b''\<rparr>)"
  by (simp add: fetch_call_def mergeRequestConfig_def request_of_url_def SmartFetchConfig_default_def
      generateCacheKey_def push_json_def buildURL_def buildHeaders_def obj_spread_def
      URLSearchParams_toString_def json_quote_def json_escape_char_def)

text \<open>
  C8, amended: the fingerprint is a function of the request alone, and of no more than its
  method (GET when absent), url, \<open>params\<close> and, for every method other than GET, body: two
  requests that agree on these have the same fingerprint. For a method other than GET and a
  truthy body, the fingerprint is the fingerprint without body, then \<open>|\<close>, then the
  serialized body.
\<close>

theorem C8_fingerprint_inputs:
  "((case method c' of None \<Rightarrow> GET | Some x \<Rightarrow> x) = (case method c of None \<Rightarrow> GET | Some x \<Rightarrow> x)
      \<and> url c' = url c \<and> params c' = params c
      \<and> ((case method c of None \<Rightarrow> GET | Some x \<Rightarrow> x) \<noteq> GET \<longrightarrow> body c' = body c)
      \<longrightarrow> generateCacheKey c' = generateCacheKey c)
   \<and> (truthy (body c) \<and> (case method c of None \<Rightarrow> GET | Some x \<Rightarrow> x) \<noteq> GET \<longrightarrow>
        (\<exists>s. json_stringify (body c) = Some s \<and>
           generateCacheKey c = generateCacheKey (c\<lparr>body := JUndefined\<rparr>) @ ''|'' @ s))"
  using generateCacheKey_body[of c]
  by (auto simp add: generateCacheKey_def Let_def)

theorem C8_fingerprint_inputs_witness:
  "generateCacheKey
       ((request_of_url ''/api/users'')
          \<lparr>method := Some POST, headers := Some [(''X-Custom'', ''test'')],
           body := JObj [(''name'', JStr ''test'')]\<rparr>)
     = generateCacheKey
         ((request_of_url ''/api/users'')\<lparr>method := Some POST, body := JObj [(''name'', JStr ''test'')]\<rparr>)
   \<and> (\<exists>s. json_stringify (JObj [(''name'', JStr ''test'')]) = Some s \<and>
          generateCacheKey
            ((request_of_url ''/api/users'')\<lparr>method := Some POST, body := JObj [(''name'', JStr ''test'')]\<rparr>)
          = generateCacheKey ((request_of_url ''/api/users'')\<lparr>method := Some POST\<rparr>) @ ''|'' @ s)"
  using C8_fingerprint_inputs
    [of "(request_of_url ''/api/users'')
          \<lparr>method := Some POST, headers := Some [(''X-Custom'', ''test'')],
           body := JObj [(''name'', JStr ''test'')]\<rparr>"
        "(request_of_url ''/api/users'')\<lparr>method := Some POST, body := JObj [(''name'', JStr ''test'')]\<rparr>"]
  by (simp add: request_of_url_def)

section \<open>Rate limiter\<close>

lemma check_pass:
  assumes "effective_rateLimit C c = Some rc" "0 < perMilliseconds rc"
    and "rateLimiters st (url c) = Some \<lparr>tokens = m, lastRefill = t0\<rparr>"
    and "1 \<le> m" "t0 \<le> t" "t < t0 + perMilliseconds rc"
  shows "fst (checkRateLimit C c (st\<lparr>clock := t\<rparr>)) = Inr Proceeded
       \<and> rateLimiters (snd (checkRateLimit C c (st\<lparr>clock := t\<rparr>))) (url c)
           = Some \<lparr>tokens = m - 1, lastRefill = t0\<rparr>"
  using assms
  by (simp add: checkRateLimit_def checkRateLimit_enter_def checkRateLimit_wake_def Let_def div_pos_pos_trivial)

lemma check_empty:
  assumes "effective_rateLimit C c = Some rc" "0 < perMilliseconds rc"
    and "rateLimiters st (url c) = Some \<lparr>tokens = 0, lastRefill = t0\<rparr>"
    and "t0 \<le> t" "t < t0 + perMilliseconds rc"
  shows "fst (checkRateLimit C c (st\<lparr>clock := t\<rparr>)) =
           (if queueRequests rc = Some True then Inr (Waited (perMilliseconds rc - (t - t0)))
            else Inl (new_RateLimitError ''Rate limit exceeded'' (perMilliseconds rc - (t - t0))))"
    and "queueRequests rc \<noteq> Some True \<Longrightarrow>
          rateLimiters (snd (checkRateLimit C c (st\<lparr>clock := t\<rparr>))) (url c)
           = Some \<lparr>tokens = 0, lastRefill = t0\<rparr>"
    and "queueRequests rc = Some True \<Longrightarrow>
          rateLimiters (snd (checkRateLimit C c (st\<lparr>clock := t\<rparr>))) (url c)
           = Some \<lparr>tokens = maxRequests rc - 1, lastRefill = t0 + perMilliseconds rc\<rparr>
          \<and> clock (snd (checkRateLimit C c (st\<lparr>clock := t\<rparr>))) = t0 + perMilliseconds rc"
  using assms
  by (simp_all add: checkRateLimit_def checkRateLimit_enter_def checkRateLimit_wake_def Let_def div_pos_pos_trivial sleep_def)

lemma refill_full:
  assumes "0 < P" "l0 + P \<le> t" "0 \<le> k" "0 \<le> (R::int)"
  shows "0 < (t - l0) div P" and "min R (k + (t - l0) div P * R) = R"
proof -
  show d: "0 < (t - l0) div P" using assms by (simp add: pos_imp_zdiv_pos_iff)
  then have "1 * R \<le> (t - l0) div P * R"
    using assms(4) by (intro mult_right_mono) simp_all
  then show "min R (k + (t - l0) div P * R) = R" using assms(3) by simp
qed

lemma check_open_pass:
  assumes "effective_rateLimit C c = Some rc" "0 < perMilliseconds rc"
    and "window_opens st (url c) (perMilliseconds rc) t"
    and "1 \<le> maxRequests rc"
  shows "fst (checkRateLimit C c (st\<lparr>clock := t\<rparr>)) = Inr Proceeded
       \<and> rateLimiters (snd (checkRateLimit C c (st\<lparr>clock := t\<rparr>))) (url c)
           = Some \<lparr>tokens = maxRequests rc - 1, lastRefill = t\<rparr>"
proof (cases "rateLimiters st (url c)")
  case None
  then show ?thesis using assms
    by (simp add: checkRateLimit_def checkRateLimit_enter_def checkRateLimit_wake_def Let_def)
next
  case (Some l)
  then have h: "0 \<le> tokens l" "lastRefill l + perMilliseconds rc \<le> t"
    using assms(3) by (simp_all add: window_opens_def)
  have R: "0 \<le> maxRequests rc" using assms(4) by simp
  note rf = refill_full[OF assms(2) h(2) h(1) R]
  show ?thesis using assms(1,4) Some rf
    by (simp add: checkRateLimit_def checkRateLimit_enter_def checkRateLimit_wake_def Let_def)
qed

lemma check_open_empty:
  assumes "effective_rateLimit C c = Some rc" "0 < perMilliseconds rc"
    and "window_opens st (url c) (perMilliseconds rc) t" "maxRequests rc = 0"
  shows "fst (checkRateLimit C c (st\<lparr>clock := t\<rparr>)) =
           (if queueRequests rc = Some True then Inr (Waited (perMilliseconds rc - (t - t)))
            else Inl (new_RateLimitError ''Rate limit exceeded'' (perMilliseconds rc - (t - t))))"
    and "queueRequests rc \<noteq> Some True \<Longrightarrow>
          rateLimiters (snd (checkRateLimit C c (st\<lparr>clock := t\<rparr>))) (url c)
           = Some \<lparr>tokens = 0, lastRefill = t\<rparr>"
    and "queueRequests rc = Some True \<Longrightarrow>
          rateLimiters (snd (checkRateLimit C c (st\<lparr>clock := t\<rparr>))) (url c)
           = Some \<lparr>tokens = maxRequests rc - 1, lastRefill = t + perMilliseconds rc\<rparr>
          \<and> clock (snd (checkRateLimit C c (st\<lparr>clock := t\<rparr>))) = t + perMilliseconds rc"
proof -
  have "fst (checkRateLimit C c (st\<lparr>clock := t\<rparr>)) =
           (if queueRequests rc = Some True then Inr (Waited (perMilliseconds rc - (t - t)))
            else Inl (new_RateLimitError ''Rate limit exceeded'' (perMilliseconds rc - (t - t))))
      \<and> (queueRequests rc \<noteq> Some True \<longrightarrow>
          rateLimiters (snd (checkRateLimit C c (st\<lparr>clock := t\<rparr>))) (url c)
           = Some \<lparr>tokens = 0, lastRefill = t\<rparr>)
      \<and> (queueRequests rc = Some True \<longrightarrow>
          rateLimiters (snd (checkRateLimit C c (st\<lparr>clock := t\<rparr>))) (url c)
           = Some \<lparr>tokens = maxRequests rc - 1, lastRefill = t + perMilliseconds rc\<rparr>
          \<and> clock (snd (checkRateLimit C c (st\<lparr>clock := t\<rparr>))) = t + perMilliseconds rc)"
  proof (cases "rateLimiters st (url c)")
    case None
    then show ?thesis using assms
      by (simp add: checkRateLimit_def checkRateLimit_enter_def checkRateLimit_wake_def Let_def sleep_def)
  next
    case (Some l)
    then have h: "0 \<le> tokens l" "lastRefill l + perMilliseconds rc \<le> t"
      using assms(3) by (simp_all add: window_opens_def)
    have d: "0 < (t - lastRefill l) div perMilliseconds rc"
      using refill_full(1)[OF assms(2) h(2) h(1), of 0] by simp
    show ?thesis using assms(1,2,4) Some d h(1)
      by (simp add: checkRateLimit_def checkRateLimit_enter_def checkRateLimit_wake_def Let_def sleep_def)
  qed
  then show "fst (checkRateLimit C c (st\<lparr>clock := t\<rparr>)) =
           (if queueRequests rc = Some True then Inr (Waited (perMilliseconds rc - (t - t)))
            else Inl (new_RateLimitError ''Rate limit exceeded'' (perMilliseconds rc - (t - t))))"
    and "queueRequests rc \<noteq> Some True \<Longrightarrow>
          rateLimiters (snd (checkRateLimit C c (st\<lparr>clock := t\<rparr>))) (url c)
           = Some \<lparr>tokens = 0, lastRefill = t\<rparr>"
    and "queueRequests rc = Some True \<Longrightarrow>
          rateLimiters (snd (checkRateLimit C c (st\<lparr>clock := t\<rparr>))) (url c)
           = Some \<lparr>tokens = maxRequests rc - 1, lastRefill = t + perMilliseconds rc\<rparr>
          \<and> clock (snd (checkRateLimit C c (st\<lparr>clock := t\<rparr>))) = t + perMilliseconds rc"
    by blast+
qed

lemma rate_checks_append:
  "rate_checks C c (ts @ us) st =
     (fst (rate_checks C c ts st) @ fst (rate_checks C c us (snd (rate_checks C c ts st))),
      snd (rate_checks C c us (snd (rate_checks C c ts st))))"
  by (induction ts arbitrary: st) (simp_all add: Let_def)

lemma warm_run:
  assumes "effective_rateLimit C c = Some rc" "0 < perMilliseconds rc"
  shows "rateLimiters st (url c) = Some \<lparr>tokens = m, lastRefill = t0\<rparr> \<Longrightarrow>
         int (length ts) \<le> m \<Longrightarrow>
         \<forall>t \<in> set ts. t0 \<le> t \<and> t < t0 + perMilliseconds rc \<Longrightarrow>
         fst (rate_checks C c ts st) = replicate (length ts) (Inr Proceeded)
       \<and> rateLimiters (snd (rate_checks C c ts st)) (url c)
           = Some \<lparr>tokens = m - int (length ts), lastRefill = t0\<rparr>"
proof (induction ts arbitrary: st m)
  case Nil
  then show ?case by simp
next
  case (Cons t ts)
  let ?r = "checkRateLimit C c (st\<lparr>clock := t\<rparr>)"
  have step: "fst ?r = Inr Proceeded
       \<and> rateLimiters (snd ?r) (url c) = Some \<lparr>tokens = m - 1, lastRefill = t0\<rparr>"
    using check_pass[OF assms Cons.prems(1), of t] Cons.prems(2,3) by simp
  have "fst (rate_checks C c ts (snd ?r)) = replicate (length ts) (Inr Proceeded)
       \<and> rateLimiters (snd (rate_checks C c ts (snd ?r))) (url c)
           = Some \<lparr>tokens = (m - 1) - int (length ts), lastRefill = t0\<rparr>"
    using Cons.IH[of "snd ?r" "m - 1"] step Cons.prems(2,3) by simp
  with step show ?case by (simp add: Let_def)
qed

lemma reject_run:
  assumes "effective_rateLimit C c = Some rc" "0 < perMilliseconds rc"
    and "queueRequests rc \<noteq> Some True"
  shows "rateLimiters st (url c) = Some \<lparr>tokens = 0, lastRefill = t0\<rparr> \<Longrightarrow>
         \<forall>t \<in> set us. t0 \<le> t \<and> t < t0 + perMilliseconds rc \<Longrightarrow>
         fst (rate_checks C c us st)
           = map (\<lambda>t. Inl (new_RateLimitError ''Rate limit exceeded'' (perMilliseconds rc - (t - t0)))) us
       \<and> rateLimiters (snd (rate_checks C c us st)) (url c) = Some \<lparr>tokens = 0, lastRefill = t0\<rparr>"
proof (induction us arbitrary: st)
  case Nil
  then show ?case by simp
next
  case (Cons u us)
  let ?r = "checkRateLimit C c (st\<lparr>clock := u\<rparr>)"
  have step: "fst ?r = Inl (new_RateLimitError ''Rate limit exceeded'' (perMilliseconds rc - (u - t0)))"
    "rateLimiters (snd ?r) (url c) = Some \<lparr>tokens = 0, lastRefill = t0\<rparr>"
    using check_empty(1,2)[OF assms(1,2) Cons.prems(1), of u] Cons.prems(2) assms(3) by simp_all
  from Cons.IH[OF step(2)] Cons.prems(2) step show ?case by (simp add: Let_def)
qed


lemma open_run:
  assumes "effective_rateLimit C c = Some rc" "0 < perMilliseconds rc"
    and "window_opens st (url c) (perMilliseconds rc) t0"
    and "maxRequests rc = int (length (t0 # ts))"
    and "\<forall>t \<in> set ts. t0 \<le> t \<and> t < t0 + perMilliseconds rc"
  shows "fst (rate_checks C c (t0 # ts) st) = replicate (length (t0 # ts)) (Inr Proceeded)
       \<and> rateLimiters (snd (rate_checks C c (t0 # ts) st)) (url c)
           = Some \<lparr>tokens = 0, lastRefill = t0\<rparr>"
proof -
  let ?r = "checkRateLimit C c (st\<lparr>clock := t0\<rparr>)"
  have step: "fst ?r = Inr Proceeded"
    "rateLimiters (snd ?r) (url c) = Some \<lparr>tokens = int (length ts), lastRefill = t0\<rparr>"
    using check_open_pass[OF assms(1,2,3)] assms(4) by simp_all
  from warm_run[OF assms(1,2) step(2) _ assms(5)] step(1) show ?thesis
    by (simp add: Let_def)
qed

text \<open>
  C6, as stated: from a cold bucket, exactly \<open>R\<close> requests pass the check within any
  window of length \<open>P\<close>, and the next one in the window waits or fails. The bucket is
  refilled in one piece, to \<open>maxRequests\<close>, by the first check that comes a whole interval
  after the last refill, so the windows it counts are its own and not any interval of
  length \<open>P\<close>. With \<open>R = 2\<close> and \<open>P = 1000\<close>, in rejecting mode and from a cold bucket,
  checks at the times 0, 999, 1000 and 1001 all pass: the interval from 999 to 1001 holds
  three passes, and the third request in it neither waits nor fails.
\<close>

theorem C6_sliding_window_counterexample:
  "fst (rate_checks SmartFetchConfig_default
         ((request_of_url ''/x'')
            \<lparr>rateLimit := Some \<lparr>maxRequests = 2, perMilliseconds = 1000, queueRequests = None\<rparr>\<rparr>)
         [0, 999, 1000, 1001] (SmartFetch_new 0))
     = [Inr Proceeded, Inr Proceeded, Inr Proceeded, Inr Proceeded]"
  by code_simp

text \<open>
  C6, amended: take a request whose effective rate limit is \<open>R\<close> requests per \<open>P\<close>
  milliseconds (\<open>P > 0\<close>), and let a check at time \<open>t0\<close> open a window of its bucket: by
  a cold start, or by a rollover a whole interval or more after the last refill. Let
  checks be issued one after the other, each one returned before the next is issued, at
  times that all lie in that window \<open>[t0, t0 + P)\<close>.
  Then the first \<open>R\<close> checks pass. The next one, at time \<open>u\<close>, in queueing mode sleeps
  \<open>P - (u - t0)\<close> milliseconds, the rest of the interval, so that it proceeds at \<open>t0 + P\<close>
  with the bucket reset to \<open>R\<close> and one token taken; in rejecting mode it fails with a
  rate-limit error that carries \<open>P - (u - t0)\<close>, and so does every later check in the
  window: exactly \<open>R\<close> pass.
\<close>

theorem C6_rate_limit_window:
  assumes cfg: "effective_rateLimit C c = Some rc"
    and R: "maxRequests rc = int R" and P: "perMilliseconds rc = P" "0 < P"
    and opens: "window_opens st (url c) P t0"
    and len: "length ts = R"
    and first: "hd (ts @ [u]) = t0"
    and window: "\<forall>t \<in> set (ts @ [u]). t0 \<le> t \<and> t < t0 + P"
  shows "fst (rate_checks C c (ts @ [u]) st)
           = replicate R (Inr Proceeded) @
             [if queueRequests rc = Some True then Inr (Waited (P - (u - t0)))
              else Inl (new_RateLimitError ''Rate limit exceeded'' (P - (u - t0)))]
       \<and> (queueRequests rc = Some True \<longrightarrow>
            clock (snd (rate_checks C c (ts @ [u]) st)) = t0 + P
          \<and> rateLimiters (snd (rate_checks C c (ts @ [u]) st)) (url c)
              = Some \<lparr>tokens = int R - 1, lastRefill = t0 + P\<rparr>)
       \<and> (queueRequests rc \<noteq> Some True \<longrightarrow>
            (\<forall>us. (\<forall>t \<in> set us. t0 \<le> t \<and> t < t0 + P) \<longrightarrow>
               fst (rate_checks C c (ts @ u # us) st)
                 = replicate R (Inr Proceeded) @
                   map (\<lambda>t. Inl (new_RateLimitError ''Rate limit exceeded'' (P - (t - t0)))) (u # us)))"
proof (cases ts)
  case Nil
  with len first have R0: "R = 0" and u: "u = t0" by simp_all
  have pos: "0 < perMilliseconds rc" using P by simp
  have m0: "maxRequests rc = 0" using R R0 by simp
  let ?r = "checkRateLimit C c (st\<lparr>clock := t0\<rparr>)"
  have op: "window_opens st (url c) (perMilliseconds rc) t0" using opens P by simp
  note ce = check_open_empty[OF cfg pos op m0]
  have a: "fst ?r = (if queueRequests rc = Some True then Inr (Waited (P - (u - t0)))
              else Inl (new_RateLimitError ''Rate limit exceeded'' (P - (u - t0))))"
    using ce(1) P u by simp
  have b: "queueRequests rc = Some True \<longrightarrow>
      clock (snd ?r) = t0 + P \<and> rateLimiters (snd ?r) (url c) = Some \<lparr>tokens = int R - 1, lastRefill = t0 + P\<rparr>"
    using ce(3) P R by simp
  have c: "queueRequests rc \<noteq> Some True \<longrightarrow>
            (\<forall>us. (\<forall>t \<in> set us. t0 \<le> t \<and> t < t0 + P) \<longrightarrow>
               fst (rate_checks C c us (snd ?r))
                 = map (\<lambda>t. Inl (new_RateLimitError ''Rate limit exceeded'' (P - (t - t0)))) us)"
    using reject_run[OF cfg pos, of "snd ?r" t0] ce(2) P by simp
  show ?thesis using a b c Nil R0 u by (simp add: Let_def)
next
  case (Cons t1 ts')
  with first have t1: "t1 = t0" by simp
  have pos: "0 < perMilliseconds rc" using P by simp
  have w': "\<forall>t \<in> set ts'. t0 \<le> t \<and> t < t0 + perMilliseconds rc"
    using window Cons P by simp
  have mr: "maxRequests rc = int (length (t0 # ts'))" using R len Cons by simp
  have tseq: "ts = t0 # ts'" using Cons t1 by simp
  have lenR: "length (t0 # ts') = R" using len tseq by simp
  have op: "window_opens st (url c) (perMilliseconds rc) t0" using opens P by simp
  note cr = open_run[OF cfg pos op mr w', unfolded lenR, folded tseq]
  let ?s = "snd (rate_checks C c ts st)"
  have lim: "rateLimiters ?s (url c) = Some \<lparr>tokens = 0, lastRefill = t0\<rparr>"
    and outs: "fst (rate_checks C c ts st) = replicate R (Inr Proceeded)"
    using cr by blast+
  have uw: "t0 \<le> u" "u < t0 + perMilliseconds rc" using window P by simp_all
  let ?r = "checkRateLimit C c (?s\<lparr>clock := u\<rparr>)"
  note ce = check_empty[OF cfg pos lim uw]
  have a: "fst ?r = (if queueRequests rc = Some True then Inr (Waited (P - (u - t0)))
              else Inl (new_RateLimitError ''Rate limit exceeded'' (P - (u - t0))))"
    using ce(1) P by simp
  have b: "queueRequests rc = Some True \<longrightarrow>
      clock (snd ?r) = t0 + P \<and> rateLimiters (snd ?r) (url c) = Some \<lparr>tokens = int R - 1, lastRefill = t0 + P\<rparr>"
    using ce(3) P R by simp
  have c: "queueRequests rc \<noteq> Some True \<longrightarrow>
            (\<forall>us. (\<forall>t \<in> set us. t0 \<le> t \<and> t < t0 + P) \<longrightarrow>
               fst (rate_checks C c (u # us) ?s)
                 = map (\<lambda>t. Inl (new_RateLimitError ''Rate limit exceeded'' (P - (t - t0)))) (u # us))"
  proof (intro impI allI)
    fix us assume q: "queueRequests rc \<noteq> Some True"
      and us: "\<forall>t \<in> set us. t0 \<le> t \<and> t < t0 + P"
    have "\<forall>t \<in> set (u # us). t0 \<le> t \<and> t < t0 + perMilliseconds rc"
      using us uw P by simp
    from reject_run[OF cfg pos q lim this] P
    show "fst (rate_checks C c (u # us) ?s)
                 = map (\<lambda>t. Inl (new_RateLimitError ''Rate limit exceeded'' (P - (t - t0)))) (u # us)"
      by simp
  qed
  have one: "rate_checks C c [u] ?s = ([fst ?r], snd ?r)" by (simp add: Let_def)
  show ?thesis
    using a b c outs one
    by (simp add: rate_checks_append[of C c ts] del: rate_checks.simps)
qed

theorem C6_rate_limit_window_witness:
  "window_opens
       ((SmartFetch_new 0)\<lparr>rateLimiters := [''/x'' \<mapsto> \<lparr>tokens = 0, lastRefill = 0\<rparr>]\<rparr>)
       ''/x'' 1000 1000
   \<and> fst (rate_checks SmartFetchConfig_default
         ((request_of_url ''/x'')
            \<lparr>rateLimit := Some \<lparr>maxRequests = 2, perMilliseconds = 1000, queueRequests = None\<rparr>\<rparr>)
         [1000, 1500, 1999, 1999]
         ((SmartFetch_new 0)\<lparr>rateLimiters := [''/x'' \<mapsto> \<lparr>tokens = 0, lastRefill = 0\<rparr>]\<rparr>))
     = [Inr Proceeded, Inr Proceeded,
        Inl (new_RateLimitError ''Rate limit exceeded'' 1),
        Inl (new_RateLimitError ''Rate limit exceeded'' 1)]
   \<and> window_opens (SmartFetch_new 0) ''/x'' 1000 0
   \<and> fst (rate_checks SmartFetchConfig_default
         ((request_of_url ''/x'')
            \<lparr>rateLimit := Some \<lparr>maxRequests = 2, perMilliseconds = 1000, queueRequests = Some True\<rparr>\<rparr>)
         [0, 10, 20] (SmartFetch_new 0))
     = [Inr Proceeded, Inr Proceeded, Inr (Waited 980)]
   \<and> clock (snd (rate_checks SmartFetchConfig_default
         ((request_of_url ''/x'')
            \<lparr>rateLimit := Some \<lparr>maxRequests = 2, perMilliseconds = 1000, queueRequests = Some True\<rparr>\<rparr>)
         [0, 10, 20] (SmartFetch_new 0))) = 1000"
proof -
  let ?rc = "\<lparr>maxRequests = 2, perMilliseconds = 1000, queueRequests = None\<rparr>"
  let ?c = "(request_of_url ''/x'')\<lparr>rateLimit := Some ?rc\<rparr>"
  let ?rq = "\<lparr>maxRequests = 2, perMilliseconds = 1000, queueRequests = Some True\<rparr>"
  let ?q = "(request_of_url ''/x'')\<lparr>rateLimit := Some ?rq\<rparr>"
  let ?st = "(SmartFetch_new 0)\<lparr>rateLimiters := [''/x'' \<mapsto> \<lparr>tokens = 0, lastRefill = 0\<rparr>]\<rparr>"
  have h1: "effective_rateLimit SmartFetchConfig_default ?c = Some ?rc"
    by (simp add: effective_rateLimit_def request_of_url_def)
  have q1: "effective_rateLimit SmartFetchConfig_default ?q = Some ?rq"
    by (simp add: effective_rateLimit_def request_of_url_def)
  have h2: "maxRequests ?rc = int 2" "maxRequests ?rq = int 2" by simp_all
  have h3: "perMilliseconds ?rc = 1000" "perMilliseconds ?rq = 1000" "(0::int) < 1000" by simp_all
  have o1: "window_opens ?st ''/x'' 1000 1000"
    by (simp add: window_opens_def)
  have o2: "window_opens (SmartFetch_new 0) ''/x'' 1000 0"
    by (simp add: window_opens_def SmartFetch_new_def)
  have o1': "window_opens ?st (url ?c) 1000 1000"
    by (simp add: window_opens_def request_of_url_def)
  have o2': "window_opens (SmartFetch_new 0) (url ?q) 1000 0"
    by (simp add: window_opens_def SmartFetch_new_def)
  have h5: "length [1000, 1500 :: int] = 2" "length [0, 10 :: int] = 2" by simp_all
  have h6: "hd ([1000, 1500] @ [1999 :: int]) = 1000" "hd ([0, 10] @ [20 :: int]) = 0" by simp_all
  have h7: "\<forall>t \<in> set ([1000, 1500] @ [1999 :: int]). 1000 \<le> t \<and> t < 1000 + 1000"
    "\<forall>t \<in> set ([0, 10] @ [20 :: int]). 0 \<le> t \<and> t < 0 + 1000" by simp_all
  have h8: "\<forall>t \<in> set [1999 :: int]. 1000 \<le> t \<and> t < 1000 + 1000" by simp
  have nq: "queueRequests ?rc \<noteq> Some True" by simp
  from C6_rate_limit_window[OF h1 h2(1) h3(1,3) o1' h5(1) h6(1) h7(1)] nq h8
  have r: "fst (rate_checks SmartFetchConfig_default ?c ([1000, 1500] @ 1999 # [1999]) ?st)
     = replicate 2 (Inr Proceeded) @
       map (\<lambda>t. Inl (new_RateLimitError ''Rate limit exceeded'' (1000 - (t - 1000)))) (1999 # [1999])"
    by blast
  from C6_rate_limit_window[OF q1 h2(2) h3(2,3) o2' h5(2) h6(2) h7(2)]
  have q: "fst (rate_checks SmartFetchConfig_default ?q ([0, 10] @ [20]) (SmartFetch_new 0))
     = replicate 2 (Inr Proceeded) @ [Inr (Waited (1000 - (20 - 0)))]"
    "clock (snd (rate_checks SmartFetchConfig_default ?q ([0, 10] @ [20]) (SmartFetch_new 0))) = 0 + 1000"
    by (simp_all del: rate_checks.simps)
  show ?thesis using o1 o2 r q
    by (simp add: numeral_2_eq_2 del: rate_checks.simps)
qed

section \<open>Attempts, retries and cache writes\<close>

lemma cacheResponse_log:
  "cache_log (cacheResponse c k r st) =
     (if cache_truthy (cache c)
      then cache_log st @
           [(strategy (cacheConfig_of (cache c)), effective_key (cacheConfig_of (cache c)) k,
             \<lparr>entry_data = data r, timestamp = clock st,
              entry_ttl = ttl (cacheConfig_of (cache c)),
              entry_key = effective_key (cacheConfig_of (cache c)) k\<rparr>)]
      else cache_log st)"
  by (simp add: cacheResponse_def Let_def)

lemma try_failure:
  assumes "executeRequest_try C tr c k n st = (Inl e, st')"
  shows "cacheManager st' = cacheManager st \<and> cache_log st' = cache_log st
       \<and> sleep_log st' = sleep_log st \<and> clock st' = clock st
       \<and> (st' = st \<or> (\<exists>call. fetch_call C c = Inr call \<and> st' = st\<lparr>fetch_log := fetch_log st @ [call]\<rparr>))"
  using assms
  by (auto simp add: executeRequest_try_def attempt_finish_def Let_def split: sum.splits if_splits option.splits)

lemma try_success:
  assumes "executeRequest_try C tr c k n st = (Inr r, st')"
  shows "\<exists>call raw. fetch_call C c = Inr call \<and> tr (length (fetch_log st)) call = Inr raw
       \<and> validateStatus C (raw_status raw) \<and> status r = raw_status raw \<and> retryCount r = Some n
       \<and> st' = cacheResponse c k r (st\<lparr>fetch_log := fetch_log st @ [call]\<rparr>)"
  using assms
  by (auto simp add: executeRequest_try_def attempt_finish_def Let_def split: sum.splits if_splits option.splits)

lemma sleep_fields [simp]:
  "cacheManager (sleep d st) = cacheManager st" "cache_log (sleep d st) = cache_log st"
  "fetch_log (sleep d st) = fetch_log st"
  by (simp_all add: sleep_def)

lemma executeRequest_failure:
  "executeRequest C tr c k n st = (Inl e, st') \<Longrightarrow>
     cacheManager st' = cacheManager st \<and> cache_log st' = cache_log st"
proof (induction C tr c k n st rule: executeRequest.induct)
  case (1 C tr c cacheKey n st)
  obtain r st1 where t: "executeRequest_try C tr c cacheKey n st = (r, st1)"
    by (cases "executeRequest_try C tr c cacheKey n st")
  show ?case
  proof (cases r)
    case (Inr resp)
    with t "1.prems" show ?thesis by (simp add: executeRequest.simps)
  next
    case (Inl error)
    note tf = try_failure[OF t[unfolded Inl]]
    show ?thesis
    proof (cases "executeRequest_catch C c n error")
      case (Throw e')
      then have "st' = st1" using "1.prems" t Inl by (simp add: executeRequest.simps)
      with tf show ?thesis by simp
    next
      case (Retry ms)
      have "executeRequest C tr c cacheKey (n + 1) (sleep ms st1) = (Inl e, st')"
        using "1.prems" t Inl Retry by (simp add: executeRequest.simps)
      from "1.IH"[OF t[unfolded Inl, symmetric] refl Retry this] tf
      show ?thesis by simp
    qed
  qed
qed

lemma sleep_logs [simp]:
  "sleep_log (sleep d st) = sleep_log st @ [d]"
  by (simp add: sleep_def)

lemma try_transport_failure:
  assumes "fetch_call C c = Inr call" "tr (length (fetch_log st)) call = Inl e"
  shows "executeRequest_try C tr c k n st = (Inl e, st\<lparr>fetch_log := fetch_log st @ [call]\<rparr>)"
  using assms by (simp add: executeRequest_try_def attempt_finish_def Let_def)

lemma retries_exhausted:
  assumes call: "fetch_call C c = Inr call"
    and rc: "getRetryConfig C c = Some rc"
    and fails: "\<And>i. tr i call = Inl (E i)"
    and keep: "\<And>i. rethrown_at_once (E i) = None"
    and acc: "\<And>i j. j < maxRetries rc \<Longrightarrow> shouldRetry (E i) j rc"
  shows "0 \<le> n \<Longrightarrow> n \<le> maxRetries rc \<Longrightarrow> d = nat (maxRetries rc - n) \<Longrightarrow>
     fst (executeRequest C tr c k n st) = Inl (wrap_error (E (length (fetch_log st) + d)))
   \<and> fetch_log (snd (executeRequest C tr c k n st)) = fetch_log st @ replicate (Suc d) call
   \<and> sleep_log (snd (executeRequest C tr c k n st))
       = sleep_log st @ map (\<lambda>j. calculateRetryDelay j rc) [n..maxRetries rc - 1]"
proof (induction d arbitrary: n st)
  case 0
  then have n: "n = maxRetries rc" by simp
  have no: "\<not> shouldRetry (E (length (fetch_log st))) n rc"
    using n by (simp add: shouldRetry_def)
  show ?case
    using try_transport_failure[where tr=tr and st=st and k=k and n=n, OF call fails] keep rc no n
    by (simp add: executeRequest.simps executeRequest_catch_def)
next
  case (Suc d)
  then have lt: "n < maxRetries rc" by simp
  let ?st1 = "sleep (calculateRetryDelay n rc) (st\<lparr>fetch_log := fetch_log st @ [call]\<rparr>)"
  have unfold: "executeRequest C tr c k n st = executeRequest C tr c k (n + 1) ?st1"
    using try_transport_failure[where tr=tr and st=st and k=k and n=n, OF call fails] keep rc acc[OF lt]
    by (simp add: executeRequest.simps executeRequest_catch_def)
  have d: "d = nat (maxRetries rc - (n + 1))" using Suc.prems by simp
  have IH: "fst (executeRequest C tr c k (n + 1) ?st1) = Inl (wrap_error (E (length (fetch_log ?st1) + d)))
   \<and> fetch_log (snd (executeRequest C tr c k (n + 1) ?st1)) = fetch_log ?st1 @ replicate (Suc d) call
   \<and> sleep_log (snd (executeRequest C tr c k (n + 1) ?st1))
       = sleep_log ?st1 @ map (\<lambda>j. calculateRetryDelay j rc) [n + 1..maxRetries rc - 1]"
  proof -
    have p1: "0 \<le> n + 1" and p2: "n + 1 \<le> maxRetries rc" using Suc.prems lt by simp_all
    have fl: "length (fetch_log ?st1) = Suc (length (fetch_log st))" by simp
    show ?thesis using Suc.IH[OF p1 p2 d, of ?st1] by blast
  qed
  have up: "[n..maxRetries rc - 1] = n # [n + 1..maxRetries rc - 1]"
    using lt by (simp add: upto_rec1)
  show ?case using IH unfolding unfold
    by (simp add: up)
qed

lemmas exec_eval_defs =
  executeRequest_try_def attempt_finish_def executeRequest_catch_def fetch_call_def buildURL_def buildHeaders_def obj_spread_def
  mergeRequestConfig_def request_of_url_def SmartFetchConfig_default_def SmartFetch_new_def
  rethrown_at_once_def wrap_error_def instanceof_Error_def instanceof_SmartFetchError_def
  getRetryConfig_def retry_truthy_def shouldRetry_def calculateRetryDelay_def sleep_def
  str_includes_def sublist_code new_SmartFetchError_def new_NetworkError_def
  new_TimeoutError_def new_AbortError_def new_ValidationError_def parseResponse_def
  cacheResponse_def cache_truthy_def cacheConfig_of_def effective_key_def
  CacheManager_set_def CacheManager_new_def adapter_defs generateCacheKey_def Let_def

text \<open>
  Under the default policy (no \<open>retryCondition\<close>, no \<open>retryOn\<close>) \<open>shouldRetry\<close> looks at
  the error as the \<open>try\<close> block threw it, before \<open>wrap_error\<close> makes a \<open>NetworkError\<close> of
  it: a rejection of \<open>fetch\<close> is a plain error without \<open>response\<close>, and is not retried.
\<close>

lemma default_policy_rejects_plain_error:
  assumes "retryCondition rc = None" and "retryOn rc = None"
    and "cls e = PlainError \<or> cls e = NotError" and "response_status e = None"
  shows "\<not> shouldRetry e n rc"
  using assms by (auto simp add: shouldRetry_def)

text \<open>
  C4: with \<open>maxRetries = k\<close> and every exchange failing with a retryable error, the
  transport is invoked \<open>k + 1\<close> times and the caller receives the last failure, tagged
  with the final attempt count. The code does not do this for the failure of the
  scenario the claim is drawn from, which is also the repository's test "should not retry
  beyond max retries": \<open>retry: {maxRetries: 2, delay: 10}\<close>, neither \<open>retryCondition\<close> nor
  \<open>retryOn\<close>, and a \<open>fetch\<close> that rejects every time with \<open>new Error('Network error')\<close>.
  \<open>shouldRetry\<close> is handed the rejection as \<open>fetch\<close> threw it; the \<open>NetworkError\<close> is made
  of it only afterwards, at the end of the \<open>catch\<close> block. So \<open>instanceof NetworkError\<close>
  is false, the error has no \<open>response\<close>, and the retry is refused: the transport is
  invoked once, not three times, nothing is slept, and the caller receives the
  \<open>NetworkError\<close> of the first attempt, which carries a message and a code and no count.
\<close>

theorem C4_network_failure_is_not_retried:
  "(let r = executeRequest SmartFetchConfig_default
              (\<lambda>i call. Inl \<lparr>cls = PlainError, ename = ''Error'', message = ''Network error'',
                              code = None, response_status = None, retryAfter = None\<rparr>)
              (mergeRequestConfig SmartFetchConfig_default
                 ((request_of_url ''/api/test'')
                    \<lparr>retry := Some (RetryCfg \<lparr>maxRetries = 2, delay = 10, maxDelay = None,
                         backoff = None, retryOn = None, retryCondition = None\<rparr>)\<rparr>))
              ''GET|/api/test'' 0 (SmartFetch_new 0)
    in fst r = Inl \<lparr>cls = NetworkError, ename = ''NetworkError'', message = ''Network error'',
                    code = Some ''NETWORK_ERROR'', response_status = None, retryAfter = None\<rparr>
     \<and> length (fetch_log (snd r)) = 1
     \<and> sleep_log (snd r) = [])"
  by (simp add: executeRequest.simps exec_eval_defs)

text \<open>
  A response with a server-error status fares the same. The \<open>SmartFetchError\<close> thrown for
  a status that \<open>validateStatus\<close> refuses is built without its \<open>response\<close> argument, so
  \<open>error?.response?.status\<close> is undefined: neither \<open>retryOn: [500]\<close> nor the default
  policy (\<open>retry: true\<close>, "retry on network errors and 5xx errors") retries a response
  with status 500.
\<close>

lemma status_500_is_not_retried:
  "length (fetch_log (snd (executeRequest SmartFetchConfig_default
          (\<lambda>i call. Inr \<lparr>raw_status = 500, raw_statusText = ''Internal Server Error'',
                       raw_headers = [(''content-type'', ''application/json'')],
                       raw_json = Inr (JObj []), raw_text = Inr (JStr ''{}''),
                       raw_blob = Inr JNull\<rparr>)
          (mergeRequestConfig SmartFetchConfig_default
             ((request_of_url ''/api/test'')
                \<lparr>retry := Some (RetryCfg \<lparr>maxRetries = 2, delay = 10, maxDelay = None,
                     backoff = None, retryOn = Some [500], retryCondition = None\<rparr>)\<rparr>))
          ''GET|/api/test'' 0 (SmartFetch_new 0)))) = 1
   \<and> fst (executeRequest SmartFetchConfig_default
          (\<lambda>i call. Inr \<lparr>raw_status = 500, raw_statusText = ''Internal Server Error'',
                       raw_headers = [(''content-type'', ''application/json'')],
                       raw_json = Inr (JObj []), raw_text = Inr (JStr ''{}''),
                       raw_blob = Inr JNull\<rparr>)
          (mergeRequestConfig SmartFetchConfig_default
             ((request_of_url ''/api/test'')
                \<lparr>retry := Some (RetryCfg \<lparr>maxRetries = 2, delay = 10, maxDelay = None,
                     backoff = None, retryOn = Some [500], retryCondition = None\<rparr>)\<rparr>))
          ''GET|/api/test'' 0 (SmartFetch_new 0))
     = Inl (new_SmartFetchError ''Request failed with status 500'' ''HTTP_500'')
   \<and> length (fetch_log (snd (executeRequest SmartFetchConfig_default
          (\<lambda>i call. Inr \<lparr>raw_status = 500, raw_statusText = ''Internal Server Error'',
                       raw_headers = [(''content-type'', ''application/json'')],
                       raw_json = Inr (JObj []), raw_text = Inr (JStr ''{}''),
                       raw_blob = Inr JNull\<rparr>)
          (mergeRequestConfig SmartFetchConfig_default
             ((request_of_url ''/api/test'')\<lparr>retry := Some (RetryFlag True)\<rparr>))
          ''GET|/api/test'' 0 (SmartFetch_new 0)))) = 1"
  by (simp add: executeRequest.simps exec_eval_defs show_int_def show_nat.simps digit_char_def)

text \<open>
  What the retry engine does once the predicate accepts, which under the default policy
  takes an error that already is a \<open>NetworkError\<close> or a \<open>TimeoutError\<close>, or that
  carries a response with a status of 500 or more. Let the retry configuration in
  force have \<open>maxRetries = k\<close>, and let every exchange fail with an error that is neither
  an abort nor a timeout and that \<open>shouldRetry\<close> accepts while attempts remain. Then
  \<open>executeRequest\<close> invokes the transport exactly \<open>k + 1\<close> times, sleeps the \<open>k\<close> backoff
  delays in between, and the caller receives the failure of the last exchange (wrapped in
  a \<open>NetworkError\<close> unless it is a \<open>SmartFetchError\<close> already).
\<close>

lemma accepted_failures_exhaust_retries:
  assumes "fetch_call C c = Inr call" and "getRetryConfig C c = Some rc"
    and "maxRetries rc = int k"
    and "\<forall>i. tr i call = Inl (E i) \<and> rethrown_at_once (E i) = None
             \<and> (\<forall>j. j < int k \<longrightarrow> shouldRetry (E i) j rc)"
  shows "fst (executeRequest C tr c cacheKey 0 st) = Inl (wrap_error (E (length (fetch_log st) + k)))
       \<and> fetch_log (snd (executeRequest C tr c cacheKey 0 st)) = fetch_log st @ replicate (k + 1) call
       \<and> sleep_log (snd (executeRequest C tr c cacheKey 0 st))
           = sleep_log st @ map (\<lambda>j. calculateRetryDelay j rc) [0..int k - 1]"
proof -
  have a: "\<And>i. tr i call = Inl (E i)" and b: "\<And>i. rethrown_at_once (E i) = None"
    and c: "\<And>i j. j < maxRetries rc \<Longrightarrow> shouldRetry (E i) j rc"
    using assms(3,4) by simp_all
  have d: "k = nat (maxRetries rc - 0)" using assms(3) by simp
  have p: "(0::int) \<le> 0" "0 \<le> maxRetries rc" using assms(3) by simp_all
  note r = retries_exhausted[where E=E and tr=tr and call=call and n=0 and d=k and k=cacheKey and st=st,
      OF assms(1,2) a b c p d]
  show ?thesis using r unfolding assms(3) by simp
qed

text \<open>
  With a \<open>retryCondition\<close> that accepts every error, the request of the scenario does
  reach three invocations, with sleeps of 10 and 20 milliseconds in between. The failure
  the caller receives is the same \<open>NetworkError\<close> as after a single invocation: no error
  class has a field for the number of attempts, and \<open>executeRequest\<close> attaches none (only
  the envelope of a success has \<open>retryCount\<close>).
\<close>

lemma accepted_failures_exhaust_retries_example:
  "(let r = executeRequest SmartFetchConfig_default
              (\<lambda>i call. Inl \<lparr>cls = PlainError, ename = ''Error'', message = ''Network error'',
                              code = None, response_status = None, retryAfter = None\<rparr>)
              (mergeRequestConfig SmartFetchConfig_default
                 ((request_of_url ''/api/test'')
                    \<lparr>retry := Some (RetryCfg \<lparr>maxRetries = 2, delay = 10, maxDelay = None,
                         backoff = None, retryOn = None, retryCondition = Some (\<lambda>e. True)\<rparr>)\<rparr>))
              ''GET|/api/test'' 0 (SmartFetch_new 0)
    in fst r = Inl \<lparr>cls = NetworkError, ename = ''NetworkError'', message = ''Network error'',
                    code = Some ''NETWORK_ERROR'', response_status = None, retryAfter = None\<rparr>
     \<and> length (fetch_log (snd r)) = 3
     \<and> sleep_log (snd r) = [10, 20])"
  by (simp add: executeRequest.simps exec_eval_defs)

text \<open>
  C5, as stated: an attempt that fails with a caller's abort or with a response-schema
  validation failure is never retried, even when a retry configuration is present. For the
  validation failure this is false: the \<open>ValidationError\<close> is thrown inside the \<open>try\<close>
  block and reaches \<open>shouldRetry\<close> like any other error, so a \<open>retryCondition\<close> that accepts
  it has the exchange repeated. Here the schema rejects every payload and
  \<open>maxRetries = 1\<close>: the transport is invoked twice.
\<close>

theorem C5_validation_failure_retried:
  "length (fetch_log (snd (executeRequest SmartFetchConfig_default
      (\<lambda>i call. Inr \<lparr>raw_status = 200, raw_statusText = ''OK'',
                       raw_headers = [(''content-type'', ''application/json'')],
                       raw_json = Inr (JObj [(''id'', JNum 1)]),
                       raw_text = Inr (JStr ''{}''), raw_blob = Inr JNull\<rparr>)
      (mergeRequestConfig SmartFetchConfig_default
         ((request_of_url ''/api/test'')
            \<lparr>retry := Some (RetryCfg \<lparr>maxRetries = 1, delay = 0, maxDelay = None,
                   backoff = None, retryOn = None, retryCondition = Some (\<lambda>e. True)\<rparr>),
             validateResponse := Some (\<lambda>d. Inl \<lparr>cls = PlainError, ename = ''ZodError'',
                   message = ''invalid'', code = None, response_status = None,
                   retryAfter = None\<rparr>)\<rparr>))
      ''GET|/api/test'' 0 (SmartFetch_new 0)))) = 2
   \<and> fst (executeRequest SmartFetchConfig_default
      (\<lambda>i call. Inr \<lparr>raw_status = 200, raw_statusText = ''OK'',
                       raw_headers = [(''content-type'', ''application/json'')],
                       raw_json = Inr (JObj [(''id'', JNum 1)]),
                       raw_text = Inr (JStr ''{}''), raw_blob = Inr JNull\<rparr>)
      (mergeRequestConfig SmartFetchConfig_default
         ((request_of_url ''/api/test'')
            \<lparr>retry := Some (RetryCfg \<lparr>maxRetries = 1, delay = 0, maxDelay = None,
                   backoff = None, retryOn = None, retryCondition = Some (\<lambda>e. True)\<rparr>),
             validateResponse := Some (\<lambda>d. Inl \<lparr>cls = PlainError, ename = ''ZodError'',
                   message = ''invalid'', code = None, response_status = None,
                   retryAfter = None\<rparr>)\<rparr>))
      ''GET|/api/test'' 0 (SmartFetch_new 0))
     = Inl (new_ValidationError ''Response validation failed'')"
  by (simp add: executeRequest.simps exec_eval_defs)

text \<open>
  C5, amended: an attempt that fails with an abort (an error named \<open>AbortError\<close>) is never
  retried, whatever the retry configuration: \<open>executeRequest\<close> ends with that attempt and
  an \<open>AbortError\<close>. An attempt that fails with the response-schema \<open>ValidationError\<close> is not
  retried either, and the error reaches the caller as it is, unless the retry
  configuration in force has a custom \<open>retryCondition\<close> that accepts it.
\<close>

theorem C5_abort_and_validation_terminal:
  assumes "executeRequest_try C tr c cacheKey n st = (Inl error, st1)"
  shows "(instanceof_Error error \<and> ename error = ''AbortError'' \<longrightarrow>
            executeRequest C tr c cacheKey n st = (Inl (new_AbortError ''Request aborted''), st1))
       \<and> (error = new_ValidationError ''Response validation failed''
          \<and> (\<forall>rc accepts. getRetryConfig C c = Some rc \<and> retryCondition rc = Some accepts
                 \<longrightarrow> \<not> accepts error)
          \<longrightarrow> executeRequest C tr c cacheKey n st = (Inl error, st1))"
proof -
  have v: "rethrown_at_once (new_ValidationError ''Response validation failed'') = None"
    by (simp add: rethrown_at_once_def new_ValidationError_def str_includes_def sublist_code)
  have w: "wrap_error (new_ValidationError ''Response validation failed'')
             = new_ValidationError ''Response validation failed''"
    by (simp add: wrap_error_def instanceof_SmartFetchError_def new_ValidationError_def)
  have s: "\<And>rc. retryCondition rc = None \<Longrightarrow>
             \<not> shouldRetry (new_ValidationError ''Response validation failed'') n rc"
    by (simp add: shouldRetry_def new_ValidationError_def split: option.splits)
  have s': "\<And>rc accepts. retryCondition rc = Some accepts \<Longrightarrow>
             \<not> accepts (new_ValidationError ''Response validation failed'') \<Longrightarrow>
             \<not> shouldRetry (new_ValidationError ''Response validation failed'') n rc"
    by (simp add: shouldRetry_def)
  show ?thesis
  proof (intro conjI impI)
    assume "instanceof_Error error \<and> ename error = ''AbortError''"
    then show "executeRequest C tr c cacheKey n st = (Inl (new_AbortError ''Request aborted''), st1)"
      using assms by (simp add: executeRequest.simps executeRequest_catch_def rethrown_at_once_def)
  next
    assume a: "error = new_ValidationError ''Response validation failed''
          \<and> (\<forall>rc accepts. getRetryConfig C c = Some rc \<and> retryCondition rc = Some accepts
                 \<longrightarrow> \<not> accepts error)"
    show "executeRequest C tr c cacheKey n st = (Inl error, st1)"
    proof (cases "getRetryConfig C c")
      case None
      then show ?thesis using assms a v w by (simp add: executeRequest.simps executeRequest_catch_def)
    next
      case (Some rc)
      have "\<not> shouldRetry error n rc"
      proof (cases "retryCondition rc")
        case None
        then show ?thesis using s a by simp
      next
        case (Some accepts)
        then show ?thesis using s'[of rc accepts] a \<open>getRetryConfig C c = Some rc\<close> by blast
      qed
      then show ?thesis using assms a v w Some by (simp add: executeRequest.simps executeRequest_catch_def)
    qed
  qed
qed

theorem C5_abort_and_validation_terminal_witness:
  "fst (executeRequest SmartFetchConfig_default
      (\<lambda>i call. Inl \<lparr>cls = PlainError, ename = ''AbortError'',
                       message = ''The user aborted a request.'', code = None,
                       response_status = None, retryAfter = None\<rparr>)
      (mergeRequestConfig SmartFetchConfig_default
         ((request_of_url ''/api/test'')
            \<lparr>retry := Some (RetryCfg \<lparr>maxRetries = 3, delay = 10, maxDelay = None,
                   backoff = None, retryOn = None, retryCondition = Some (\<lambda>e. True)\<rparr>)\<rparr>))
      ''GET|/api/test'' 0 (SmartFetch_new 0))
     = Inl (new_AbortError ''Request aborted'')
   \<and> length (fetch_log (snd (executeRequest SmartFetchConfig_default
      (\<lambda>i call. Inl \<lparr>cls = PlainError, ename = ''AbortError'',
                       message = ''The user aborted a request.'', code = None,
                       response_status = None, retryAfter = None\<rparr>)
      (mergeRequestConfig SmartFetchConfig_default
         ((request_of_url ''/api/test'')
            \<lparr>retry := Some (RetryCfg \<lparr>maxRetries = 3, delay = 10, maxDelay = None,
                   backoff = None, retryOn = None, retryCondition = Some (\<lambda>e. True)\<rparr>)\<rparr>))
      ''GET|/api/test'' 0 (SmartFetch_new 0)))) = 1
   \<and> fst (executeRequest SmartFetchConfig_default
      (\<lambda>i call. Inr \<lparr>raw_status = 200, raw_statusText = ''OK'',
                       raw_headers = [(''content-type'', ''application/json'')],
                       raw_json = Inr (JObj [(''id'', JNum 1)]),
                       raw_text = Inr (JStr ''{}''), raw_blob = Inr JNull\<rparr>)
      (mergeRequestConfig SmartFetchConfig_default
         ((request_of_url ''/api/test'')
            \<lparr>retry := Some (RetryFlag True),
             validateResponse := Some (\<lambda>d. Inl \<lparr>cls = PlainError, ename = ''ZodError'',
                   message = ''invalid'', code = None, response_status = None,
                   retryAfter = None\<rparr>)\<rparr>))
      ''GET|/api/test'' 0 (SmartFetch_new 0))
     = Inl (new_ValidationError ''Response validation failed'')
   \<and> length (fetch_log (snd (executeRequest SmartFetchConfig_default
      (\<lambda>i call. Inr \<lparr>raw_status = 200, raw_statusText = ''OK'',
                       raw_headers = [(''content-type'', ''application/json'')],
                       raw_json = Inr (JObj [(''id'', JNum 1)]),
                       raw_text = Inr (JStr ''{}''), raw_blob = Inr JNull\<rparr>)
      (mergeRequestConfig SmartFetchConfig_default
         ((request_of_url ''/api/test'')
            \<lparr>retry := Some (RetryFlag True),
             validateResponse := Some (\<lambda>d. Inl \<lparr>cls = PlainError, ename = ''ZodError'',
                   message = ''invalid'', code = None, response_status = None,
                   retryAfter = None\<rparr>)\<rparr>))
      ''GET|/api/test'' 0 (SmartFetch_new 0)))) = 1"
proof -
  let ?abort = "\<lparr>cls = PlainError, ename = ''AbortError'',
                 message = ''The user aborted a request.'', code = None,
                 response_status = None, retryAfter = None\<rparr>"
  let ?tra = "\<lambda>(i::nat) (call::FetchCall). (Inl ?abort :: thrown + RawResponse)"
  let ?ca = "mergeRequestConfig SmartFetchConfig_default
         ((request_of_url ''/api/test'')
            \<lparr>retry := Some (RetryCfg \<lparr>maxRetries = 3, delay = 10, maxDelay = None,
                   backoff = None, retryOn = None, retryCondition = Some (\<lambda>e. True)\<rparr>)\<rparr>)"
  let ?trv = "\<lambda>(i::nat) (call::FetchCall).
      (Inr \<lparr>raw_status = 200, raw_statusText = ''OK'',
            raw_headers = [(''content-type'', ''application/json'')],
            raw_json = Inr (JObj [(''id'', JNum 1)]),
            raw_text = Inr (JStr ''{}''), raw_blob = Inr JNull\<rparr> :: thrown + RawResponse)"
  let ?cv = "mergeRequestConfig SmartFetchConfig_default
         ((request_of_url ''/api/test'')
            \<lparr>retry := Some (RetryFlag True),
             validateResponse := Some (\<lambda>d. Inl \<lparr>cls = PlainError, ename = ''ZodError'',
                   message = ''invalid'', code = None, response_status = None,
                   retryAfter = None\<rparr>)\<rparr>)"
  let ?st1 = "(SmartFetch_new 0)
      \<lparr>fetch_log := [\<lparr>fetch_url = ''/api/test'', fetch_method = ''GET'', fetch_headers = [],
                      fetch_body = None, fetch_credentials = None, fetch_mode = None\<rparr>]\<rparr>"
  have ta: "executeRequest_try SmartFetchConfig_default ?tra ?ca ''GET|/api/test'' 0 (SmartFetch_new 0)
              = (Inl ?abort, ?st1)"
    by (simp add: exec_eval_defs)
  have tv: "executeRequest_try SmartFetchConfig_default ?trv ?cv ''GET|/api/test'' 0 (SmartFetch_new 0)
              = (Inl (new_ValidationError ''Response validation failed''), ?st1)"
    by (simp add: exec_eval_defs)
  have ia: "instanceof_Error ?abort \<and> ename ?abort = ''AbortError''"
    by (simp add: instanceof_Error_def)
  have iv: "\<forall>rc accepts. getRetryConfig SmartFetchConfig_default ?cv = Some rc
              \<and> retryCondition rc = Some accepts
              \<longrightarrow> \<not> accepts (new_ValidationError ''Response validation failed'')"
    by (simp add: getRetryConfig_def retry_truthy_def mergeRequestConfig_def request_of_url_def
        SmartFetchConfig_default_def)
  have ra: "executeRequest SmartFetchConfig_default ?tra ?ca ''GET|/api/test'' 0 (SmartFetch_new 0)
              = (Inl (new_AbortError ''Request aborted''), ?st1)"
    using C5_abort_and_validation_terminal[OF ta] ia by blast
  have rv: "executeRequest SmartFetchConfig_default ?trv ?cv ''GET|/api/test'' 0 (SmartFetch_new 0)
              = (Inl (new_ValidationError ''Response validation failed''), ?st1)"
    using C5_abort_and_validation_terminal[OF tv] iv by blast
  show ?thesis unfolding ra rv by simp
qed

text \<open>
  C7: an attempt whose \<open>try\<close> block throws (the exchange is rejected by a network failure,
  a timeout or an abort, the status fails validation, parsing, transformation or schema
  validation throws) leaves the cache and the log of cache writes as they were. An attempt
  that does write to the cache has received a response whose status passed
  \<open>validateStatus\<close>, has built the envelope it returns, and the write is the
  \<open>cacheResponse\<close> of that envelope. And a call of \<open>executeRequest\<close> that ends in failure,
  after however many attempts, has written nothing.
\<close>

theorem C7_no_cache_write_on_failure:
  "(\<forall>e st'. executeRequest_try C tr c cacheKey n st = (Inl e, st') \<longrightarrow>
       cacheManager st' = cacheManager st \<and> cache_log st' = cache_log st)
   \<and> (\<forall>r st'. executeRequest_try C tr c cacheKey n st = (r, st') \<and> cache_log st' \<noteq> cache_log st \<longrightarrow>
         (\<exists>call raw response.
            fetch_call C c = Inr call \<and> tr (length (fetch_log st)) call = Inr raw
          \<and> validateStatus C (raw_status raw) \<and> r = Inr response
          \<and> status response = raw_status raw
          \<and> st' = cacheResponse c cacheKey response (st\<lparr>fetch_log := fetch_log st @ [call]\<rparr>)))
   \<and> (\<forall>e st'. executeRequest C tr c cacheKey n st = (Inl e, st') \<longrightarrow>
         cacheManager st' = cacheManager st \<and> cache_log st' = cache_log st)"
proof (intro conjI allI impI)
  fix e st' assume "executeRequest_try C tr c cacheKey n st = (Inl e, st')"
  from try_failure[OF this]
  show "cacheManager st' = cacheManager st" and "cache_log st' = cache_log st" by simp_all
next
  fix r st'
  assume a: "executeRequest_try C tr c cacheKey n st = (r, st') \<and> cache_log st' \<noteq> cache_log st"
  show "\<exists>call raw response.
            fetch_call C c = Inr call \<and> tr (length (fetch_log st)) call = Inr raw
          \<and> validateStatus C (raw_status raw) \<and> r = Inr response
          \<and> status response = raw_status raw
          \<and> st' = cacheResponse c cacheKey response (st\<lparr>fetch_log := fetch_log st @ [call]\<rparr>)"
  proof (cases r)
    case (Inl e)
    with a try_failure[of C tr c cacheKey n st e st'] show ?thesis by simp
  next
    case (Inr response)
    with a try_success[of C tr c cacheKey n st response st'] show ?thesis by blast
  qed
next
  fix e st' assume "executeRequest C tr c cacheKey n st = (Inl e, st')"
  from executeRequest_failure[OF this]
  show "cacheManager st' = cacheManager st" and "cache_log st' = cache_log st" by simp_all
qed

theorem C7_no_cache_write_on_failure_witness:
  "fst (executeRequest_try SmartFetchConfig_default
      (\<lambda>i call. Inr \<lparr>raw_status = 500, raw_statusText = ''Internal Server Error'',
                       raw_headers = [(''content-type'', ''application/json'')],
                       raw_json = Inr (JObj []), raw_text = Inr (JStr ''{}''),
                       raw_blob = Inr JNull\<rparr>)
      (mergeRequestConfig SmartFetchConfig_default
         ((request_of_url ''/x'')
            \<lparr>cache := Some (CacheCfg \<lparr>strategy = memory, ttl = Some 60000, key = None\<rparr>)\<rparr>))
      ''GET|/x'' 0 (SmartFetch_new 0))
     = Inl (new_SmartFetchError ''Request failed with status 500'' ''HTTP_500'')
   \<and> cache_log (snd (executeRequest_try SmartFetchConfig_default
      (\<lambda>i call. Inr \<lparr>raw_status = 500, raw_statusText = ''Internal Server Error'',
                       raw_headers = [(''content-type'', ''application/json'')],
                       raw_json = Inr (JObj []), raw_text = Inr (JStr ''{}''),
                       raw_blob = Inr JNull\<rparr>)
      (mergeRequestConfig SmartFetchConfig_default
         ((request_of_url ''/x'')
            \<lparr>cache := Some (CacheCfg \<lparr>strategy = memory, ttl = Some 60000, key = None\<rparr>)\<rparr>))
      ''GET|/x'' 0 (SmartFetch_new 0))) = []
   \<and> cache_log (snd (executeRequest SmartFetchConfig_default
      (\<lambda>i call. Inr \<lparr>raw_status = 500, raw_statusText = ''Internal Server Error'',
                       raw_headers = [(''content-type'', ''application/json'')],
                       raw_json = Inr (JObj []), raw_text = Inr (JStr ''{}''),
                       raw_blob = Inr JNull\<rparr>)
      (mergeRequestConfig SmartFetchConfig_default
         ((request_of_url ''/x'')
            \<lparr>cache := Some (CacheCfg \<lparr>strategy = memory, ttl = Some 60000, key = None\<rparr>)\<rparr>))
      ''GET|/x'' 0 (SmartFetch_new 0))) = []
   \<and> cache_log (snd (executeRequest_try SmartFetchConfig_default
      (\<lambda>i call. Inr \<lparr>raw_status = 200, raw_statusText = ''OK'',
                       raw_headers = [(''content-type'', ''application/json'')],
                       raw_json = Inr (JStr ''cached''), raw_text = Inr (JStr ''{}''),
                       raw_blob = Inr JNull\<rparr>)
      (mergeRequestConfig SmartFetchConfig_default
         ((request_of_url ''/x'')
            \<lparr>cache := Some (CacheCfg \<lparr>strategy = memory, ttl = Some 60000, key = None\<rparr>)\<rparr>))
      ''GET|/x'' 0 (SmartFetch_new 0)))
     = [(memory, ''GET|/x'',
         \<lparr>entry_data = JStr ''cached'', timestamp = 0, entry_ttl = Some 60000,
          entry_key = ''GET|/x''\<rparr>)]
   \<and> (\<exists>response. fst (executeRequest_try SmartFetchConfig_default
      (\<lambda>i call. Inr \<lparr>raw_status = 200, raw_statusText = ''OK'',
                       raw_headers = [(''content-type'', ''application/json'')],
                       raw_json = Inr (JStr ''cached''), raw_text = Inr (JStr ''{}''),
                       raw_blob = Inr JNull\<rparr>)
      (mergeRequestConfig SmartFetchConfig_default
         ((request_of_url ''/x'')
            \<lparr>cache := Some (CacheCfg \<lparr>strategy = memory, ttl = Some 60000, key = None\<rparr>)\<rparr>))
      ''GET|/x'' 0 (SmartFetch_new 0)) = Inr response \<and> status response = 200)"
proof -
  let ?c = "mergeRequestConfig SmartFetchConfig_default
         ((request_of_url ''/x'')
            \<lparr>cache := Some (CacheCfg \<lparr>strategy = memory, ttl = Some 60000, key = None\<rparr>)\<rparr>)"
  let ?t500 = "\<lambda>(i::nat) (call::FetchCall).
      (Inr \<lparr>raw_status = 500, raw_statusText = ''Internal Server Error'',
            raw_headers = [(''content-type'', ''application/json'')],
            raw_json = Inr (JObj []), raw_text = Inr (JStr ''{}''),
            raw_blob = Inr JNull\<rparr> :: thrown + RawResponse)"
  let ?t200 = "\<lambda>(i::nat) (call::FetchCall).
      (Inr \<lparr>raw_status = 200, raw_statusText = ''OK'',
            raw_headers = [(''content-type'', ''application/json'')],
            raw_json = Inr (JStr ''cached''), raw_text = Inr (JStr ''{}''),
            raw_blob = Inr JNull\<rparr> :: thrown + RawResponse)"
  let ?call = "\<lparr>fetch_url = ''/x'', fetch_method = ''GET'', fetch_headers = [],
                fetch_body = None, fetch_credentials = None, fetch_mode = None\<rparr>"
  let ?st1 = "(SmartFetch_new 0)\<lparr>fetch_log := [?call]\<rparr>"
  let ?e = "new_SmartFetchError ''Request failed with status 500'' ''HTTP_500''"
  have sh: "show_int 500 = ''500''"
    by (simp add: show_int_def show_nat.simps digit_char_def)
  have t5: "executeRequest_try SmartFetchConfig_default ?t500 ?c ''GET|/x'' 0 (SmartFetch_new 0)
              = (Inl ?e, ?st1)"
    by (simp add: exec_eval_defs sh)
  have e5: "executeRequest SmartFetchConfig_default ?t500 ?c ''GET|/x'' 0 (SmartFetch_new 0)
              = (Inl ?e, ?st1)"
    by (simp add: executeRequest.simps exec_eval_defs sh)
  have l0: "cache_log (SmartFetch_new 0) = []" by (simp add: SmartFetch_new_def)
  note T = C7_no_cache_write_on_failure
    [of SmartFetchConfig_default ?t500 ?c "''GET|/x''" 0 "SmartFetch_new 0"]
  have a: "cache_log ?st1 = cache_log (SmartFetch_new 0)"
    using T t5 by blast
  have b: "cache_log (snd (executeRequest SmartFetchConfig_default ?t500 ?c ''GET|/x'' 0
              (SmartFetch_new 0))) = cache_log (SmartFetch_new 0)"
    using T e5 by (metis snd_conv)
  have t2: "cache_log (snd (executeRequest_try SmartFetchConfig_default ?t200 ?c ''GET|/x'' 0
              (SmartFetch_new 0)))
     = [(memory, ''GET|/x'',
         \<lparr>entry_data = JStr ''cached'', timestamp = 0, entry_ttl = Some 60000,
          entry_key = ''GET|/x''\<rparr>)]"
    by (simp add: exec_eval_defs)
  obtain r2 st2 where p2: "executeRequest_try SmartFetchConfig_default ?t200 ?c ''GET|/x'' 0
              (SmartFetch_new 0) = (r2, st2)"
    by (cases "executeRequest_try SmartFetchConfig_default ?t200 ?c ''GET|/x'' 0 (SmartFetch_new 0)")
  have ne: "cache_log st2 \<noteq> cache_log (SmartFetch_new 0)"
    using t2 p2 l0 by simp
  from C7_no_cache_write_on_failure
    [of SmartFetchConfig_default ?t200 ?c "''GET|/x''" 0 "SmartFetch_new 0"] p2 ne
  obtain call raw response where
    u: "?t200 (length (fetch_log (SmartFetch_new 0))) call = Inr raw" "r2 = Inr response"
       "status response = raw_status raw"
    by blast
  have "status response = 200" using u(1,3) by auto
  then have ex: "\<exists>response. fst (executeRequest_try SmartFetchConfig_default ?t200 ?c ''GET|/x'' 0
              (SmartFetch_new 0)) = Inr response \<and> status response = 200"
    using p2 u(2) by simp
  show ?thesis using t5 a b t2 l0 ex by simp
qed

section \<open>Deduplication on the event loop\<close>

text \<open>
  C1: with deduplication enabled, N concurrent identical requests cause exactly one
  transport exchange, and at most one exchange is in flight for a fingerprint at any
  instant. The code does not achieve this. \<open>request\<close> looks the fingerprint up in
  \<open>pendingRequests\<close>, then suspends at \<open>await this.checkRateLimit(...)\<close>, and registers its
  own promise only after that. Two calls made in the same turn (as by \<open>Promise.all\<close> in
  the repository's test "should deduplicate simultaneous requests") take their steps in
  turn: both find the table empty before either has registered. After the six
  continuations have run the queue is empty, \<open>fetch\<close> has been called twice for
  \<open>/api/test\<close>, and two exchanges with the fingerprint \<open>GET|/api/test\<close> are in flight.
\<close>

theorem C1_simultaneous_requests_two_exchanges:
  "(let w = run_microtasks SmartFetchConfig_default ''r'' 6
              (call_request SmartFetchConfig_default
                 ((request_of_url ''/api/test'')\<lparr>deduplicate := Some True\<rparr>)
                 (call_request SmartFetchConfig_default
                    ((request_of_url ''/api/test'')\<lparr>deduplicate := Some True\<rparr>)
                    (world_new (SmartFetch_new 0))))
    in microtasks w = []
     \<and> map fetch_url (fetch_log (client w)) = [''/api/test'', ''/api/test'']
     \<and> map ex_cacheKey (exchanges w) = [''GET|/api/test'', ''GET|/api/test'']
     \<and> in_flight ''GET|/api/test'' w = 2)"
  by code_simp

text \<open>
  For comparison, a second identical request made once the first has reached \<open>fetch\<close> is
  deduplicated: it waits for the promise in the table and no second exchange starts.
\<close>

lemma later_request_is_deduplicated:
  "(let w1 = run_microtasks SmartFetchConfig_default ''r'' 3
               (call_request SmartFetchConfig_default
                  ((request_of_url ''/api/test'')\<lparr>deduplicate := Some True\<rparr>)
                  (world_new (SmartFetch_new 0)));
        w2 = run_microtasks SmartFetchConfig_default ''r'' 2
               (call_request SmartFetchConfig_default
                  ((request_of_url ''/api/test'')\<lparr>deduplicate := Some True\<rparr>) w1)
    in microtasks w2 = []
     \<and> (case tasks w2 ! 1 of AwaitShared p \<Rightarrow> p = 0 | _ \<Rightarrow> False)
     \<and> length (fetch_log (client w2)) = 1
     \<and> in_flight ''GET|/api/test'' w2 = 1)"
  by code_simp

text \<open>
  C2: the entry of the pending-request table is removed when the owning attempt settles,
  on success and on failure, so that a later identical request is never deduplicated
  against a settled entry. \<open>request\<close> deletes the entry at the end of its \<open>try\<close> block
  only; its \<open>catch\<close> block does not. Here the exchange of a request is rejected by the
  transport: the request has returned the \<open>NetworkError\<close>, and the table still maps the
  fingerprint to the rejected promise. An identical request made afterwards is handed that
  promise: it fails with the same error and \<open>fetch\<close> is not called again.
\<close>

theorem C2_rejected_entry_stays_registered:
  "(let w1 = run_microtasks SmartFetchConfig_default ''r'' 3
               (call_request SmartFetchConfig_default
                  ((request_of_url ''/api/test'')\<lparr>deduplicate := Some True\<rparr>)
                  (world_new (SmartFetch_new 0)));
        w2 = run_microtasks SmartFetchConfig_default ''r'' 1
               (transport_settles SmartFetchConfig_default 0
                  (Inl \<lparr>cls = PlainError, ename = ''TypeError'', message = ''Failed to fetch'',
                        code = None, response_status = None, retryAfter = None\<rparr>) w1);
        w3 = run_microtasks SmartFetchConfig_default ''r'' 3
               (call_request SmartFetchConfig_default
                  ((request_of_url ''/api/test'')\<lparr>deduplicate := Some True\<rparr>) w2)
    in microtasks w2 = []
     \<and> (case tasks w2 ! 0 of Returned (Inl e) \<Rightarrow> e = new_NetworkError ''Failed to fetch'' | _ \<Rightarrow> False)
     \<and> (case ex_state (exchanges w2 ! 0) of Rejected e \<Rightarrow> True | _ \<Rightarrow> False)
     \<and> pendingRequests (client w2) ''GET|/api/test'' = Some 0
     \<and> microtasks w3 = []
     \<and> (case tasks w3 ! 1 of Returned (Inl e) \<Rightarrow> e = new_NetworkError ''Failed to fetch'' | _ \<Rightarrow> False)
     \<and> length (fetch_log (client w3)) = 1)"
  by code_simp

text \<open>On the success path the entry is removed, after the response hooks have run.\<close>

lemma fulfilled_entry_is_removed:
  "(let w1 = run_microtasks SmartFetchConfig_default ''r'' 3
               (call_request SmartFetchConfig_default
                  ((request_of_url ''/api/test'')\<lparr>deduplicate := Some True\<rparr>)
                  (world_new (SmartFetch_new 0)));
        w2 = run_microtasks SmartFetchConfig_default ''r'' 1
               (transport_settles SmartFetchConfig_default 0
                  (Inr \<lparr>raw_status = 200, raw_statusText = ''OK'',
                        raw_headers = [(''content-type'', ''application/json'')],
                        raw_json = Inr (JObj [(''message'', JStr ''success'')]),
                        raw_text = Inr (JStr ''{}''), raw_blob = Inr JNull\<rparr>) w1)
    in microtasks w2 = []
     \<and> (case tasks w2 ! 0 of Returned (Inr r) \<Rightarrow> status r = 200 | _ \<Rightarrow> False)
     \<and> pendingRequests (client w2) ''GET|/api/test'' = None)"
  by code_simp

section \<open>Rate-limit checks that sleep at the same time\<close>

text \<open>
  In queueing mode every call that finds the bucket empty sleeps on a timer of its own
  and, on waking, resets the bucket and proceeds, whatever the other sleepers have done.
  Three requests for one endpoint with \<open>R = 1\<close> and \<open>P = 1000\<close> (deduplication off) are
  made in the same turn at time 0: the first passes and calls \<open>fetch\<close>, the other two
  sleep 1000 milliseconds each. At time 1000 both timers fire, both calls proceed, and
  \<open>fetch\<close> is called twice more at that time, in one window of a bucket of one token.
\<close>

lemma queued_checks_all_proceed_on_waking:
  "(let c = (request_of_url ''/x'')
              \<lparr>deduplicate := Some False,
               rateLimit := Some \<lparr>maxRequests = 1, perMilliseconds = 1000, queueRequests = Some True\<rparr>\<rparr>;
        w1 = run_microtasks SmartFetchConfig_default ''r'' 7
               (call_request SmartFetchConfig_default c
                 (call_request SmartFetchConfig_default c
                   (call_request SmartFetchConfig_default c (world_new (SmartFetch_new 0)))));
        w2 = run_microtasks SmartFetchConfig_default ''r'' 4
               (rate_timer_fires 2 (rate_timer_fires 1 (time_passes 1000 w1)))
    in microtasks w1 = []
     \<and> length (fetch_log (client w1)) = 1
     \<and> sleep_log (client w1) = [1000, 1000]
     \<and> clock (client w1) = 0
     \<and> microtasks w2 = []
     \<and> clock (client w2) = 1000
     \<and> length (fetch_log (client w2)) = 3
     \<and> in_flight ''GET|/x'' w2 = 3
     \<and> map_option tokens (rateLimiters (client w2) ''/x'') = Some 0
     \<and> map_option lastRefill (rateLimiters (client w2) ''/x'') = Some 1000)"
  by code_simp

section \<open>The offline queue\<close>

text \<open>
  While offline, a queueable request that reaches the offline check is stored in the
  queue, \<open>fetch\<close> is not called, and the call fails with a \<open>NetworkError\<close> whose message
  says that the request was queued.
\<close>

lemma offline_request_is_enqueued:
  "(let w = run_microtasks SmartFetchConfig_default ''abc'' 4
              (call_request SmartFetchConfig_default (request_of_url ''/api/analytics'')
                 (world_new ((SmartFetch_new 17)\<lparr>online := False\<rparr>)))
    in microtasks w = []
     \<and> (case tasks w ! 0 of
           Returned (Inl e) \<Rightarrow> e = new_NetworkError ''Request queued for offline processing''
         | _ \<Rightarrow> False)
     \<and> fetch_log (client w) = []
     \<and> map entry_id (entries (offlineQueue (client w))) = [''17-abc'']
     \<and> map entry_retryCount (entries (offlineQueue (client w))) = [0])"
  by code_simp

lemma processQueue_loop_drops:
  "processQueue_loop (\<lambda>i. False) es q =
     (None, q\<lparr>entries := filter (\<lambda>e. entry_id e \<notin> set (map entry_id es)) (entries q),
              notified := notified q @ map entry_id es\<rparr>)"
proof (induction es arbitrary: q)
  case Nil
  then show ?case by simp
next
  case (Cons e es)
  have "filter (\<lambda>x. entry_id x \<notin> set (map entry_id es)) (filter (\<lambda>x. entry_id x \<noteq> entry_id e) (entries q))
      = filter (\<lambda>x. entry_id x \<notin> set (map entry_id (e # es))) (entries q)"
    by (induction "entries q") auto
  then show ?case
    by (simp add: Cons.IH OfflineQueue_dequeue_def Let_def)
qed

lemma drain_empties_queue:
  assumes "\<not> isProcessing q"
  shows "entries (snd (processQueue True (\<lambda>i. False) q)) = []
       \<and> notified (snd (processQueue True (\<lambda>i. False) q)) = notified q @ map entry_id (entries q)"
proof -
  have "filter (\<lambda>e. entry_id e \<notin> set (map entry_id (entries q))) (entries q) = []"
    by (induction "entries q") auto
  then show ?thesis using assms
    by (simp add: processQueue_def processQueue_loop_drops Let_def)
qed

text \<open>
  C9: during a drain an entry is removed from the queue only when its replay succeeded or
  its retry counter exceeds 3, and is otherwise stored again with the counter incremented.
  \<open>processQueue\<close> does not wait for the replay: it notifies the listeners and deletes the
  entry at once, and its \<open>catch\<close> branch with the retry counter is reached only when that
  deletion throws. Whatever becomes of the replay, a drain of a queue that holds one
  entry with retry counter 0 leaves the queue empty: the entry is neither kept nor
  counted.
\<close>

theorem C9_drain_removes_entry_regardless_of_replay:
  "(let r = processQueue True (\<lambda>i. False)
              \<lparr>entries = [\<lparr>entry_id = ''17-abc'', entry_config = request_of_url ''/api/analytics'',
                            queuedAt = 17, entry_retryCount = 0\<rparr>],
               isProcessing = False, notified = []\<rparr>
    in fst r = None
     \<and> map entry_id (entries (snd r)) = []
     \<and> notified (snd r) = [''17-abc'']
     \<and> isProcessing (snd r) = False)"
  by code_simp


end
